theory Spec2Isabelle
  imports Main "HOL-Library.Sublist"
begin

section \<open>Values, exceptions and the log\<close>

text \<open>
  The service in \<^verbatim>\<open>ReadMariaMJ.py\<close> reads and writes one table, MUSIC_DISCOGRAPHY, through
  an ORM session. Column values are strings, dates or None.
\<close>

text \<open>
  A \<open>datetime.date\<close> object. The service never looks inside one, so the type is left
  opaque; two dates are compared as the objects they are.
\<close>

typedecl date

instantiation date :: equal
begin

definition equal_date :: "date \<Rightarrow> date \<Rightarrow> bool" where
  "equal_date a b = (a = b)"

instance
  by standard (simp add: equal_date_def)

end

datatype pyval = PyNone | PyStr string | PyDate date

text \<open>
  Python exceptions. \<open>HTTPException\<close>, with its status code and detail, is the one the
  handlers raise themselves; \<open>RequestValidationError\<close> is raised by the framework when
  the request body does not fit the schema, and names the fields at fault;
  \<open>IntegrityError\<close>, \<open>ProgrammingError\<close> and \<open>FlushError\<close> come from the session, each
  with the text of its message; \<open>PyError\<close> is any other exception, with its message.
\<close>

datatype exn =
    HTTPException int string
  | RequestValidationError "string list"
  | IntegrityError string
  | ProgrammingError string
  | FlushError string
  | PyError string

datatype 'a outcome = Returned 'a | Raised exn

datatype level = INFO | WARNING | ERROR

type_synonym log_entry = "level \<times> string"

text \<open>Decimal printing, for the f-strings of the log messages.\<close>

fun str_nat :: "nat \<Rightarrow> string" where
  "str_nat n =
     (if n < 10 then [''0123456789'' ! n]
      else str_nat (n div 10) @ [''0123456789'' ! (n mod 10)])"

declare str_nat.simps [simp del]

definition str_int :: "int \<Rightarrow> string" where
  "str_int i = (if i < 0 then ''-'' @ str_nat (nat (- i)) else str_nat (nat i))"

text \<open>\<open>str(e)\<close>: the message of an exception.\<close>

fun str_exn :: "exn \<Rightarrow> string" where
  "str_exn (HTTPException c d) = str_int c @ '': '' @ d"
| "str_exn (RequestValidationError names) = concat names"
| "str_exn (IntegrityError m) = m"
| "str_exn (ProgrammingError m) = m"
| "str_exn (FlushError m) = m"
| "str_exn (PyError m) = m"

section \<open>The table and its rows\<close>

text \<open>
  An instance of the mapped class \<open>MusicDiscography\<close> is its attribute state: the
  attributes it holds, by name. Reading an attribute gives its value (\<open>Val\<close>) or raises
  an exception other than AttributeError (\<open>Raises\<close>, with the exception's message);
  an attribute that is not there at all raises AttributeError, which \<open>getattr\<close> with a
  default answers with the default.
\<close>

datatype attr = Val pyval | Raises string

type_synonym MusicDiscography = "(string \<times> attr) list"

text \<open>The columns of \<open>MusicDiscography.__table__\<close>, in the order of the class body.\<close>

definition columns :: "string list" where
  "columns = [''TYPE'', ''SDATE'', ''SALENUMBER'', ''ORDER'', ''MTITLE'',
              ''MAINCOLOR'', ''LABEL'', ''GROUP'', ''CENTER'']"

text \<open>
  The pydantic schema: every field is \<open>Optional[...] = None\<close>. The field TYPE is
  written \<open>TYPE'\<close> here.
\<close>

record MusicDiscographySchema =
  TYPE' :: "string option"
  SDATE :: "date option"
  SALENUMBER :: "string option"
  ORDER :: "string option"
  MTITLE :: "string option"
  MAINCOLOR :: "string option"
  LABEL :: "string option"
  GROUP :: "string option"
  CENTER :: "string option"

text \<open>A Python dict keeps insertion order: an association list.\<close>

type_synonym pydict = "(string \<times> pyval) list"

section \<open>The world: store, sessions, log\<close>

text \<open>
  \<open>table\<close> is what a session's query over MUSIC_DISCOGRAPHY yields, row by row, in the
  store's natural order; an entry \<open>None\<close> is a row that came back as Python's None, the
  case the handlers test with \<open>record is None\<close>. \<open>pending\<close> holds the objects added to
  the current session and not yet flushed. \<open>opened\<close> lists the sessions that are open.
\<close>

record world =
  table :: "MusicDiscography option list"
  pending :: "MusicDiscography list"
  opened :: "nat list"
  next_id :: nat
  log :: "log_entry list"

definition logger :: "level \<Rightarrow> string \<Rightarrow> world \<Rightarrow> world" where
  "logger lv msg w = w\<lparr>log := log w @ [(lv, msg)]\<rparr>"

section \<open>get_db\<close>

definition SessionLocal :: "world \<Rightarrow> nat \<times> world" where
  "SessionLocal w =
     (next_id w, w\<lparr>pending := [], opened := next_id w # opened w, next_id := Suc (next_id w)\<rparr>)"

definition db_close :: "nat \<Rightarrow> world \<Rightarrow> world" where
  "db_close db w = w\<lparr>pending := [], opened := removeAll db (opened w)\<rparr>"

text \<open>
  \<open>get_db\<close> is a generator with \<open>try: yield db finally: db.close()\<close>: the framework
  runs the request between the yield and the finally clause, and the finally clause runs
  whether the request returned or raised.
\<close>

definition get_db :: "(nat \<Rightarrow> world \<Rightarrow> 'a outcome \<times> world) \<Rightarrow> world \<Rightarrow> 'a outcome \<times> world" where
  "get_db request w =
     (let (db, w1) = SessionLocal w in
      case request db w1 of
        (Returned v, w2) \<Rightarrow> (Returned v, db_close db w2)
      | (Raised e, w2) \<Rightarrow> (Raised e, db_close db w2))"

section \<open>record_to_dict\<close>

text \<open>\<open>getattr(record, name, None)\<close>: the default stands in for a missing attribute only.\<close>

definition py_getattr :: "MusicDiscography \<Rightarrow> string \<Rightarrow> pyval \<Rightarrow> exn + pyval" where
  "py_getattr record name dflt =
     (case map_of record name of
        None \<Rightarrow> Inr dflt
      | Some (Val v) \<Rightarrow> Inr v
      | Some (Raises m) \<Rightarrow> Inl (PyError m))"

text \<open>The dict comprehension \<open>{c.name: getattr(record, c.name, None) for c in cols}\<close>.\<close>

fun dict_comprehension :: "MusicDiscography \<Rightarrow> string list \<Rightarrow> exn + pydict" where
  "dict_comprehension record [] = Inr []"
| "dict_comprehension record (c # cs) =
     (case py_getattr record c PyNone of
        Inl e \<Rightarrow> Inl e
      | Inr v \<Rightarrow>
          (case dict_comprehension record cs of
             Inl e \<Rightarrow> Inl e
           | Inr d \<Rightarrow> Inr ((c, v) # d)))"

definition record_to_dict :: "MusicDiscography option \<Rightarrow> world \<Rightarrow> (exn + pydict option) \<times> world" where
  "record_to_dict record w =
     (case record of
        None \<Rightarrow> (Inr None, logger WARNING ''Encountered a None record'' w)
      | Some r \<Rightarrow>
          (case dict_comprehension r columns of
             Inl e \<Rightarrow> (Inl e, w)
           | Inr d \<Rightarrow> (Inr (Some d), w)))"

text \<open>
  Reading a column is fine when the attribute has a value or is missing. A record is well
  formed when reading each of its columns is fine.
\<close>

definition reads_ok :: "MusicDiscography \<Rightarrow> string \<Rightarrow> bool" where
  "reads_ok r c = (case map_of r c of Some (Raises m) \<Rightarrow> False | _ \<Rightarrow> True)"

definition well_formed :: "MusicDiscography \<Rightarrow> bool" where
  "well_formed r = list_all (reads_ok r) columns"

text \<open>What \<open>getattr(record, c, None)\<close> answers on a well-formed record.\<close>

definition attr_or_None :: "MusicDiscography \<Rightarrow> string \<Rightarrow> pyval" where
  "attr_or_None r c = (case map_of r c of Some (Val v) \<Rightarrow> v | _ \<Rightarrow> PyNone)"

section \<open>The session\<close>

text \<open>
  \<open>db.query(MusicDiscography).offset(skip).limit(limit).all()\<close>. The store is MariaDB,
  which refuses a negative OFFSET or LIMIT as a syntax error.
\<close>

definition db_query :: "int \<Rightarrow> int \<Rightarrow> world \<Rightarrow> exn + MusicDiscography option list" where
  "db_query skip limit w =
     (if skip < 0 \<or> limit < 0 then Inl (ProgrammingError ''You have an error in your SQL syntax'')
      else Inr (take (nat limit) (drop (nat skip) (table w))))"

text \<open>The primary key of a row as the store sees it: the value of TYPE.\<close>

definition row_key :: "MusicDiscography option \<Rightarrow> pyval option" where
  "row_key row =
     (case row of
        None \<Rightarrow> None
      | Some r \<Rightarrow> (case py_getattr r ''TYPE'' PyNone of Inl e \<Rightarrow> None | Inr k \<Rightarrow> Some k))"

text \<open>
  Modelled from the spec: the table MUSIC_DISCOGRAPHY exists before the service starts,
  and the source, which never creates it, does not decide its constraints. Section 3 of
  the specification gives the columns that are not nullable.
\<close>

definition not_null_columns :: "string list" where
  "not_null_columns = [''TYPE'', ''ORDER'', ''MTITLE'', ''LABEL'', ''GROUP'', ''CENTER'']"

text \<open>The columns that may not be null and are None in the values of a row.\<close>

definition null_columns :: "pydict \<Rightarrow> string list" where
  "null_columns values = filter (\<lambda>c. map_of values c = Some PyNone) not_null_columns"

text \<open>
  One INSERT. The session reads the value of every column of the object. TYPE is the
  primary key (\<open>primary_key=True\<close>): a row without it has no identity. The store
  refuses None in a column that is not nullable, and then a TYPE that is already in the
  table. The natural order is taken to be the order of insertion, as in the scenario of
  the specification: a new row goes to the end.
\<close>

definition insert_row :: "MusicDiscography \<Rightarrow> MusicDiscography option list \<Rightarrow> exn + MusicDiscography option list" where
  "insert_row obj t =
     (case dict_comprehension obj columns of
        Inl e \<Rightarrow> Inl e
      | Inr values \<Rightarrow>
          if map_of values ''TYPE'' = Some PyNone
          then Inl (FlushError ''Instance has a NULL identity key'')
          else (case null_columns values of
                  c # cs \<Rightarrow> Inl (IntegrityError (''Column '' @ c @ '' cannot be null''))
                | [] \<Rightarrow>
                    if map_of values ''TYPE'' \<in> set (map row_key t)
                    then Inl (IntegrityError ''Duplicate entry for key PRIMARY'')
                    else Inr (t @ [Some obj])))"

fun flush :: "MusicDiscography list \<Rightarrow> MusicDiscography option list \<Rightarrow> exn + MusicDiscography option list" where
  "flush [] t = Inr t"
| "flush (obj # objs) t =
     (case insert_row obj t of
        Inl e \<Rightarrow> Inl e
      | Inr t' \<Rightarrow> flush objs t')"

definition db_add :: "MusicDiscography \<Rightarrow> world \<Rightarrow> world" where
  "db_add obj w = w\<lparr>pending := pending w @ [obj]\<rparr>"

text \<open>\<open>db.commit()\<close>: the pending objects are written in one transaction, or none is.\<close>

definition db_commit :: "world \<Rightarrow> exn option \<times> world" where
  "db_commit w =
     (case flush (pending w) (table w) of
        Inl e \<Rightarrow> (Some e, w)
      | Inr t' \<Rightarrow> (None, w\<lparr>table := t', pending := []\<rparr>))"

text \<open>\<open>db.refresh(obj)\<close>: the row with the object's key is read again from the table.\<close>

definition db_refresh :: "MusicDiscography \<Rightarrow> world \<Rightarrow> exn + MusicDiscography" where
  "db_refresh obj w =
     (case find (\<lambda>row. row_key row = row_key (Some obj)) (table w) of
        Some (Some r) \<Rightarrow> Inr r
      | _ \<Rightarrow> Inl (PyError ''Could not refresh instance''))"

section \<open>GET /music_discography/\<close>

text \<open>
  The loop over \<open>enumerate(records)\<close>, with \<open>valid_records\<close> as the accumulator. The test
  \<open>if record_dict:\<close> is Python's truth test: None and the empty dict are both false.
\<close>

fun read_loop :: "nat \<Rightarrow> MusicDiscography option list \<Rightarrow> pydict list \<Rightarrow> world \<Rightarrow> pydict list \<times> world" where
  "read_loop i [] valid_records w = (valid_records, w)"
| "read_loop i (record # records) valid_records w =
     (case record_to_dict record w of
        (Inr (Some record_dict), w1) \<Rightarrow>
          if record_dict \<noteq> [] then read_loop (Suc i) records (valid_records @ [record_dict]) w1
          else read_loop (Suc i) records valid_records
                 (logger WARNING (''Skipping None record at index '' @ str_nat i) w1)
      | (Inr None, w1) \<Rightarrow>
          read_loop (Suc i) records valid_records
            (logger WARNING (''Skipping None record at index '' @ str_nat i) w1)
      | (Inl e, w1) \<Rightarrow>
          read_loop (Suc i) records valid_records
            (logger ERROR (''Error processing record at index '' @ str_nat i @ '': '' @ str_exn e) w1))"

definition read_music_discography :: "int \<Rightarrow> int \<Rightarrow> nat \<Rightarrow> world \<Rightarrow> pydict list outcome \<times> world" where
  "read_music_discography skip limit db w =
     (let w1 = logger INFO (''Querying database with skip='' @ str_int skip @ '', limit='' @ str_int limit) w in
      case db_query skip limit w1 of
        Inl e \<Rightarrow>
          (Raised (HTTPException 500 (str_exn e)),
           logger ERROR (''Error in read_music_discography: '' @ str_exn e) w1)
      | Inr records \<Rightarrow>
          (let w2 = logger INFO (''Retrieved '' @ str_nat (length records) @ '' records from database'') w1;
               (valid_records, w3) = read_loop 0 records [] w2;
               w4 = logger INFO (''Returning '' @ str_nat (length valid_records) @ '' valid records'') w3
           in (Returned valid_records, w4)))"

section \<open>GET /debug_music_discography/\<close>

record record_info =
  index :: nat
  type_name :: string
  attributes :: "string list"
  is_none :: bool
  data :: "pydict option"

text \<open>\<open>type(record).__name__\<close>.\<close>

definition py_type_name :: "MusicDiscography option \<Rightarrow> string" where
  "py_type_name record = (case record of None \<Rightarrow> ''NoneType'' | Some r \<Rightarrow> ''MusicDiscography'')"

text \<open>
  The loop of the debug endpoint. \<open>py_dir\<close> is the interpreter's builtin \<open>dir\<close>, taken as a
  parameter. \<open>record_to_dict\<close> is called only on a record that is not None, and nothing
  catches what it raises inside the loop.
\<close>

fun debug_loop ::
  "(MusicDiscography option \<Rightarrow> string list) \<Rightarrow> nat \<Rightarrow> MusicDiscography option list \<Rightarrow>
   record_info list \<Rightarrow> world \<Rightarrow> (exn + record_info list) \<times> world" where
  "debug_loop py_dir i [] debug_info w = (Inr debug_info, w)"
| "debug_loop py_dir i (record # records) debug_info w =
     (case (if record \<noteq> None then record_to_dict record w else (Inr None, w)) of
        (Inl e, w1) \<Rightarrow> (Inl e, w1)
      | (Inr d, w1) \<Rightarrow>
          debug_loop py_dir (Suc i) records
            (debug_info @
              [\<lparr>index = i, type_name = py_type_name record, attributes = py_dir record,
                is_none = (record = None), data = d\<rparr>]) w1)"

definition debug_music_discography ::
  "(MusicDiscography option \<Rightarrow> string list) \<Rightarrow> int \<Rightarrow> int \<Rightarrow> nat \<Rightarrow> world \<Rightarrow>
   record_info list outcome \<times> world" where
  "debug_music_discography py_dir skip limit db w =
     (case db_query skip limit w of
        Inl e \<Rightarrow>
          (Raised (HTTPException 500 (str_exn e)),
           logger ERROR (''Error in debug_music_discography: '' @ str_exn e) w)
      | Inr records \<Rightarrow>
          (case debug_loop py_dir 0 records [] w of
             (Inl e, w1) \<Rightarrow>
               (Raised (HTTPException 500 (str_exn e)),
                logger ERROR (''Error in debug_music_discography: '' @ str_exn e) w1)
           | (Inr debug_info, w1) \<Rightarrow> (Returned debug_info, w1)))"

section \<open>POST /music_discography/\<close>

definition opt_str :: "string option \<Rightarrow> pyval" where
  "opt_str v = (case v of None \<Rightarrow> PyNone | Some s \<Rightarrow> PyStr s)"

definition opt_date :: "date option \<Rightarrow> pyval" where
  "opt_date v = (case v of None \<Rightarrow> PyNone | Some d \<Rightarrow> PyDate d)"

text \<open>\<open>record.dict()\<close>.\<close>

definition schema_dict :: "MusicDiscographySchema \<Rightarrow> pydict" where
  "schema_dict record =
     [(''TYPE'', opt_str (TYPE' record)), (''SDATE'', opt_date (SDATE record)),
      (''SALENUMBER'', opt_str (SALENUMBER record)), (''ORDER'', opt_str (ORDER record)),
      (''MTITLE'', opt_str (MTITLE record)), (''MAINCOLOR'', opt_str (MAINCOLOR record)),
      (''LABEL'', opt_str (LABEL record)), (''GROUP'', opt_str (GROUP record)),
      (''CENTER'', opt_str (CENTER record))]"

text \<open>\<open>MusicDiscography(**kwargs)\<close>: each keyword becomes an attribute.\<close>

definition MusicDiscography_init :: "pydict \<Rightarrow> MusicDiscography" where
  "MusicDiscography_init kwargs = map (\<lambda>(k, v). (k, Val v)) kwargs"

text \<open>The handler has no try/except: what the session raises leaves the handler as it is.\<close>

definition create_music_discography :: "MusicDiscographySchema \<Rightarrow> nat \<Rightarrow> world \<Rightarrow> MusicDiscography outcome \<times> world" where
  "create_music_discography record db w =
     (let db_record = MusicDiscography_init (schema_dict record);
          w1 = db_add db_record w
      in case db_commit w1 of
           (Some e, w2) \<Rightarrow> (Raised e, w2)
         | (None, w2) \<Rightarrow>
             (case db_refresh db_record w2 of
                Inl e \<Rightarrow> (Raised e, w2)
              | Inr refreshed \<Rightarrow> (Returned refreshed, w2)))"

section \<open>The framework around the handlers\<close>

text \<open>
  Validation of a mapping against \<open>MusicDiscographySchema\<close>. A field that is missing
  takes its default, None, and None is accepted for every field. A field declared
  \<open>Optional[str]\<close> takes a string and nothing else. SDATE, declared \<open>Optional[date]\<close>,
  takes a date object, and a string when the library's date validator reads a date from
  it. That validator is not part of the service: \<open>parse_date\<close> is a parameter, answering
  None for a string that is no date.
\<close>

definition field_ok :: "(string \<Rightarrow> date option) \<Rightarrow> pydict \<Rightarrow> string \<Rightarrow> bool" where
  "field_ok parse_date body f =
     (case map_of body f of
        None \<Rightarrow> True
      | Some PyNone \<Rightarrow> True
      | Some (PyStr s) \<Rightarrow> (if f = ''SDATE'' then parse_date s \<noteq> None else True)
      | Some (PyDate d) \<Rightarrow> f = ''SDATE'')"

definition str_field :: "pydict \<Rightarrow> string \<Rightarrow> string option" where
  "str_field body f = (case map_of body f of Some (PyStr s) \<Rightarrow> Some s | _ \<Rightarrow> None)"

definition date_field :: "(string \<Rightarrow> date option) \<Rightarrow> pydict \<Rightarrow> string \<Rightarrow> date option" where
  "date_field parse_date body f =
     (case map_of body f of
        Some (PyDate d) \<Rightarrow> Some d
      | Some (PyStr s) \<Rightarrow> parse_date s
      | _ \<Rightarrow> None)"

definition model_validate :: "(string \<Rightarrow> date option) \<Rightarrow> pydict \<Rightarrow> string list + MusicDiscographySchema" where
  "model_validate parse_date body =
     (if filter (\<lambda>f. \<not> field_ok parse_date body f) columns \<noteq> []
      then Inl (filter (\<lambda>f. \<not> field_ok parse_date body f) columns)
      else Inr \<lparr>TYPE' = str_field body ''TYPE'', SDATE = date_field parse_date body ''SDATE'',
                SALENUMBER = str_field body ''SALENUMBER'', ORDER = str_field body ''ORDER'',
                MTITLE = str_field body ''MTITLE'', MAINCOLOR = str_field body ''MAINCOLOR'',
                LABEL = str_field body ''LABEL'', GROUP = str_field body ''GROUP'',
                CENTER = str_field body ''CENTER''\<rparr>)"

text \<open>
  The request body is a JSON object, decoded: the fields the caller sent, by name. A body
  the schema does not accept is a validation error, with the fields at fault.
\<close>

definition validate_body :: "(string \<Rightarrow> date option) \<Rightarrow> pydict \<Rightarrow> exn + MusicDiscographySchema" where
  "validate_body parse_date body =
     (case model_validate parse_date body of
        Inl names \<Rightarrow> Inl (RequestValidationError names)
      | Inr record \<Rightarrow> Inr record)"

text \<open>
  \<open>response_model=List[MusicDiscographySchema]\<close> on the list route: every returned
  mapping is validated against the schema, and one that fails fails the response.
\<close>

fun response_model_list :: "(string \<Rightarrow> date option) \<Rightarrow> pydict list \<Rightarrow> MusicDiscographySchema list option" where
  "response_model_list parse_date [] = Some []"
| "response_model_list parse_date (d # ds) =
     (case model_validate parse_date d of
        Inl names \<Rightarrow> None
      | Inr r \<Rightarrow>
          (case response_model_list parse_date ds of
             None \<Rightarrow> None
           | Some rs \<Rightarrow> Some (r # rs)))"

text \<open>
  \<open>response_model=MusicDiscographySchema\<close> on the create route: the fields are read
  from the attributes of the returned object and validated against the schema.
\<close>

definition response_model_record :: "(string \<Rightarrow> date option) \<Rightarrow> MusicDiscography \<Rightarrow> MusicDiscographySchema option" where
  "response_model_record parse_date obj =
     (case dict_comprehension obj columns of
        Inl e \<Rightarrow> None
      | Inr values \<Rightarrow>
          (case model_validate parse_date values of
             Inl names \<Rightarrow> None
           | Inr r \<Rightarrow> Some r))"

text \<open>The three routes: each request runs inside \<open>Depends(get_db)\<close>.\<close>

definition GET_music_discography :: "int \<Rightarrow> int \<Rightarrow> world \<Rightarrow> pydict list outcome \<times> world" where
  "GET_music_discography skip limit w = get_db (read_music_discography skip limit) w"

definition GET_debug_music_discography ::
  "(MusicDiscography option \<Rightarrow> string list) \<Rightarrow> int \<Rightarrow> int \<Rightarrow> world \<Rightarrow> record_info list outcome \<times> world" where
  "GET_debug_music_discography py_dir skip limit w =
     get_db (debug_music_discography py_dir skip limit) w"

definition POST_music_discography ::
  "(string \<Rightarrow> date option) \<Rightarrow> pydict \<Rightarrow> world \<Rightarrow> MusicDiscography outcome \<times> world" where
  "POST_music_discography parse_date body w =
     get_db (\<lambda>db w1.
       case validate_body parse_date body of
         Inl e \<Rightarrow> (Raised e, w1)
       | Inr record \<Rightarrow> create_music_discography record db w1) w"

text \<open>
  What the framework answers. A returned value goes through the route's response model:
  what the model makes of it is sent with 200, and a value the model rejects is an
  error inside the server, the plain 500. The debug route declares no response model:
  its model is \<open>Some\<close>. An \<open>HTTPException\<close> is answered with its status code and its
  detail; a validation error of the request with 422; any other exception with the plain
  500 of the server-error middleware, which carries no detail.
\<close>

datatype 'a content = Json 'a | Detail string | ValidationDetail "string list" | PlainText string

definition respond :: "('a \<Rightarrow> 'b option) \<Rightarrow> 'a outcome \<Rightarrow> int \<times> 'b content" where
  "respond response_model out =
     (case out of
        Returned v \<Rightarrow>
          (case response_model v of
             Some body \<Rightarrow> (200, Json body)
           | None \<Rightarrow> (500, PlainText ''Internal Server Error''))
      | Raised (HTTPException c d) \<Rightarrow> (c, Detail d)
      | Raised (RequestValidationError names) \<Rightarrow> (422, ValidationDetail names)
      | Raised e \<Rightarrow> (500, PlainText ''Internal Server Error''))"

section \<open>Notions the properties are stated with\<close>

text \<open>What \<open>record_to_dict\<close> returns or raises, without the log.\<close>

definition converted :: "MusicDiscography option \<Rightarrow> exn + pydict option" where
  "converted record =
     (case record of
        None \<Rightarrow> Inr None
      | Some r \<Rightarrow>
          (case dict_comprehension r columns of
             Inl e \<Rightarrow> Inl e
           | Inr d \<Rightarrow> Inr (Some d)))"

text \<open>A row converts when it is not None and \<open>record_to_dict\<close> returns its mapping.\<close>

definition converts :: "MusicDiscography option \<Rightarrow> bool" where
  "converts record = (case converted record of Inr (Some d) \<Rightarrow> True | _ \<Rightarrow> False)"

definition mapping_of :: "MusicDiscography option \<Rightarrow> pydict" where
  "mapping_of record = (case converted record of Inr (Some d) \<Rightarrow> d | _ \<Rightarrow> [])"

text \<open>
  The list output as the specification words it: \<open>record_to_dict\<close> mapped over the rows
  of the batch that convert, in the order of the batch.
\<close>

definition spec_valid_records :: "MusicDiscography option list \<Rightarrow> pydict list" where
  "spec_valid_records batch = map mapping_of (filter converts batch)"

text \<open>The invariant of the store: no two rows have the same primary key.\<close>

definition pk_unique :: "MusicDiscography option list \<Rightarrow> bool" where
  "pk_unique t = distinct (List.map_filter row_key t)"

text \<open>A request succeeded when its handler returned.\<close>

definition returned :: "'a outcome \<Rightarrow> bool" where
  "returned out = (case out of Returned v \<Rightarrow> True | Raised e \<Rightarrow> False)"


text \<open>
  Example data: the two records of the specification's scenario, a row whose TYPE raises
  when it is read, and a world holding a given table with no session open and an empty
  log.
\<close>

definition lp1 :: MusicDiscography where
  "lp1 = [(''TYPE'', Val (PyStr ''LP1'')), (''SDATE'', Val PyNone), (''SALENUMBER'', Val PyNone),
          (''ORDER'', Val (PyStr ''A'')), (''MTITLE'', Val (PyStr ''X'')), (''MAINCOLOR'', Val PyNone),
          (''LABEL'', Val (PyStr ''L'')), (''GROUP'', Val (PyStr ''G'')), (''CENTER'', Val (PyStr ''C''))]"

definition lp2 :: MusicDiscography where
  "lp2 = [(''TYPE'', Val (PyStr ''LP2'')), (''SDATE'', Val PyNone), (''SALENUMBER'', Val PyNone),
          (''ORDER'', Val (PyStr ''B'')), (''MTITLE'', Val (PyStr ''Y'')), (''MAINCOLOR'', Val PyNone),
          (''LABEL'', Val (PyStr ''L'')), (''GROUP'', Val (PyStr ''G'')), (''CENTER'', Val (PyStr ''C''))]"

definition raising_row :: MusicDiscography where
  "raising_row = [(''TYPE'', Raises ''boom'')]"

text \<open>
  A row as the driver hands over an illegal DATE of the store: SDATE is not a date object
  but the string of the zero date.
\<close>

definition zero_date_row :: MusicDiscography where
  "zero_date_row =
     [(''TYPE'', Val (PyStr ''LP0'')), (''SDATE'', Val (PyStr ''0000-00-00'')),
      (''SALENUMBER'', Val PyNone), (''ORDER'', Val (PyStr ''A'')), (''MTITLE'', Val (PyStr ''Z'')),
      (''MAINCOLOR'', Val PyNone), (''LABEL'', Val (PyStr ''L'')), (''GROUP'', Val (PyStr ''G'')),
      (''CENTER'', Val (PyStr ''C''))]"

definition world_of :: "MusicDiscography option list \<Rightarrow> world" where
  "world_of t = \<lparr>table = t, pending = [], opened = [], next_id = 0, log = []\<rparr>"

text \<open>
  The examples carry no SDATE, so any date validator serves them; this one reads a date
  from no string.
\<close>

definition no_date :: "string \<Rightarrow> date option" where
  "no_date s = None"

text \<open>
  What the schema makes of a value submitted for a field: a string submitted for SDATE
  becomes the date the validator reads from it, every other value is kept as it is.
\<close>

definition stored_value :: "(string \<Rightarrow> date option) \<Rightarrow> string \<Rightarrow> pyval \<Rightarrow> pyval" where
  "stored_value parse_date f v =
     (case v of
        PyStr s \<Rightarrow> (if f = ''SDATE'' then opt_date (parse_date s) else v)
      | _ \<Rightarrow> v)"


section \<open>Facts about record_to_dict\<close>

lemma py_getattr_reads_ok:
  "reads_ok r c \<Longrightarrow> py_getattr r c PyNone = Inr (attr_or_None r c)"
  by (simp add: reads_ok_def py_getattr_def attr_or_None_def split: option.splits attr.splits)

lemma py_getattr_raising:
  "\<not> reads_ok r c \<Longrightarrow> \<exists>e. py_getattr r c PyNone = Inl e"
  by (simp add: reads_ok_def py_getattr_def split: option.splits attr.splits)

lemma dict_comprehension_reads_ok:
  "list_all (reads_ok r) cs \<Longrightarrow>
   dict_comprehension r cs = Inr (map (\<lambda>c. (c, attr_or_None r c)) cs)"
  by (induction cs) (simp_all add: py_getattr_reads_ok)

lemma dict_comprehension_raising:
  "\<not> list_all (reads_ok r) cs \<Longrightarrow> \<exists>e. dict_comprehension r cs = Inl e"
proof (induction cs)
  case Nil
  then show ?case by simp
next
  case (Cons c cs)
  show ?case
  proof (cases "reads_ok r c")
    case True
    with Cons obtain e where "dict_comprehension r cs = Inl e" by auto
    with True show ?thesis by (simp add: py_getattr_reads_ok)
  next
    case False
    then obtain e where "py_getattr r c PyNone = Inl e"
      using py_getattr_raising by blast
    then show ?thesis by simp
  qed
qed

lemma map_of_tabulate:
  "c \<in> set cs \<Longrightarrow> map_of (map (\<lambda>c. (c, f c)) cs) c = Some (f c)"
  by (induction cs) auto

lemma record_to_dict_value: "fst (record_to_dict record w) = converted record"
  by (simp add: record_to_dict_def converted_def split: option.splits sum.splits)

lemma converted_well_formed:
  "well_formed r \<Longrightarrow> converted (Some r) = Inr (Some (map (\<lambda>c. (c, attr_or_None r c)) columns))"
  by (simp add: converted_def well_formed_def dict_comprehension_reads_ok)

lemma converted_ill_formed:
  "\<not> well_formed r \<Longrightarrow> \<exists>e. converted (Some r) = Inl e"
proof -
  assume "\<not> well_formed r"
  then obtain e where "dict_comprehension r columns = Inl e"
    using dict_comprehension_raising well_formed_def by blast
  then show ?thesis by (simp add: converted_def)
qed

section \<open>The conversion of one record\<close>

text \<open>
  C10, as stated, fails: a record that is not None, with an attribute whose reading
  raises an exception other than AttributeError, gets no mapping and no None in place of
  the attribute; the exception leaves \<open>record_to_dict\<close>.
\<close>

theorem record_to_dict_raising_row:
  "Some raising_row \<noteq> None \<and>
   fst (record_to_dict (Some raising_row) (world_of [])) = Inl (PyError ''boom'')"
  by (simp add: raising_row_def record_to_dict_def columns_def py_getattr_def)

text \<open>
  C10, amended. \<open>record_to_dict\<close> returns None exactly when its input is None. On a
  record that is well formed, one whose column attributes each have a value or are
  missing, it returns a mapping whose keys are the nine column names in order, each with
  the attribute's value, or None where the attribute is missing; and it returns a mapping
  for a record only when the record is well formed: the conversion is total on the
  well-formed records and on no other.
\<close>

theorem record_to_dict_total:
  "(fst (record_to_dict record w) = Inr None \<longleftrightarrow> record = None) \<and>
   (well_formed r \<longrightarrow>
      (\<exists>d. fst (record_to_dict (Some r) w) = Inr (Some d) \<and> map fst d = columns \<and>
           (\<forall>c \<in> set columns. map_of d c = Some (attr_or_None r c)))) \<and>
   (fst (record_to_dict (Some r) w) = Inr (Some d') \<longrightarrow> well_formed r \<and> map fst d' = columns)"
proof (intro conjI impI)
  show "fst (record_to_dict record w) = Inr None \<longleftrightarrow> record = None"
    by (simp add: record_to_dict_def split: option.splits sum.splits)
next
  assume wf: "well_formed r"
  let ?d = "map (\<lambda>c. (c, attr_or_None r c)) columns"
  have "fst (record_to_dict (Some r) w) = Inr (Some ?d)"
    using wf by (simp add: record_to_dict_value converted_well_formed)
  moreover have "map fst ?d = columns"
    by (simp add: comp_def)
  moreover have "\<forall>c \<in> set columns. map_of ?d c = Some (attr_or_None r c)"
    by (simp add: map_of_tabulate)
  ultimately show "\<exists>d. fst (record_to_dict (Some r) w) = Inr (Some d) \<and> map fst d = columns \<and>
           (\<forall>c \<in> set columns. map_of d c = Some (attr_or_None r c))"
    by blast
next
  assume ret: "fst (record_to_dict (Some r) w) = Inr (Some d')"
  show wf: "well_formed r"
  proof (rule ccontr)
    assume "\<not> well_formed r"
    then obtain e where "converted (Some r) = Inl e"
      using converted_ill_formed by blast
    with ret show False by (simp add: record_to_dict_value)
  qed
  from ret wf show "map fst d' = columns"
    by (auto simp add: record_to_dict_value converted_well_formed comp_def)
qed

theorem record_to_dict_total_witness:
  "well_formed [(''TYPE'', Val (PyStr ''LP1'')), (''ORDER'', Val (PyStr ''A''))] \<and>
   fst (record_to_dict (Some [(''TYPE'', Val (PyStr ''LP1'')), (''ORDER'', Val (PyStr ''A''))])
         \<lparr>table = [], pending = [], opened = [], next_id = 0, log = []\<rparr>) =
     Inr (Some [(''TYPE'', PyStr ''LP1''), (''SDATE'', PyNone), (''SALENUMBER'', PyNone),
                (''ORDER'', PyStr ''A''), (''MTITLE'', PyNone), (''MAINCOLOR'', PyNone),
                (''LABEL'', PyNone), (''GROUP'', PyNone), (''CENTER'', PyNone)]) \<and>
   fst (record_to_dict None \<lparr>table = [], pending = [], opened = [], next_id = 0, log = []\<rparr>) = Inr None"
  using record_to_dict_total
    [of None "\<lparr>table = [], pending = [], opened = [], next_id = 0, log = []\<rparr>"
        "[(''TYPE'', Val (PyStr ''LP1'')), (''ORDER'', Val (PyStr ''A''))]"
        "[(''TYPE'', PyStr ''LP1''), (''SDATE'', PyNone), (''SALENUMBER'', PyNone),
          (''ORDER'', PyStr ''A''), (''MTITLE'', PyNone), (''MAINCOLOR'', PyNone),
          (''LABEL'', PyNone), (''GROUP'', PyNone), (''CENTER'', PyNone)]"]
  by (simp add: well_formed_def reads_ok_def columns_def record_to_dict_def py_getattr_def
      attr_or_None_def)

section \<open>Facts about the list loop\<close>

lemma converted_Some_nonempty: "converted row = Inr (Some d) \<Longrightarrow> d \<noteq> []"
proof -
  assume c: "converted row = Inr (Some d)"
  then obtain r where r: "row = Some r"
    by (cases row) (simp_all add: converted_def)
  have "well_formed r"
    using c r converted_ill_formed by fastforce
  with c r have "d = map (\<lambda>c. (c, attr_or_None r c)) columns"
    by (simp add: converted_well_formed)
  then show ?thesis by (simp add: columns_def)
qed

lemma record_to_dict_pair:
  "\<exists>l. record_to_dict row w = (converted row, w\<lparr>log := log w @ l\<rparr>)"
proof (cases row)
  case None
  have "record_to_dict None w =
          (converted None, w\<lparr>log := log w @ [(WARNING, ''Encountered a None record'')]\<rparr>)"
    by (simp add: record_to_dict_def logger_def converted_def)
  with None show ?thesis by blast
next
  case (Some r)
  have "record_to_dict (Some r) w = (converted (Some r), w\<lparr>log := log w @ []\<rparr>)"
    by (simp add: record_to_dict_def converted_def split: sum.splits)
  with Some show ?thesis by blast
qed

lemma spec_valid_records_Cons:
  "spec_valid_records (row # batch) =
     (if converts row then mapping_of row # spec_valid_records batch
      else spec_valid_records batch)"
  by (simp add: spec_valid_records_def)

lemma read_loop_step:
  "\<exists>l. read_loop i (row # batch) valid_records w =
     read_loop (Suc i) batch
       (if converts row then valid_records @ [mapping_of row] else valid_records)
       (w\<lparr>log := log w @ l\<rparr>)"
proof -
  obtain l1 where rd: "record_to_dict row w = (converted row, w\<lparr>log := log w @ l1\<rparr>)"
    using record_to_dict_pair by blast
  show ?thesis
  proof (cases "converted row")
    case (Inl e)
    have "read_loop i (row # batch) valid_records w =
       read_loop (Suc i) batch valid_records
         (w\<lparr>log := log w @ (l1 @ [(ERROR, ''Error processing record at index '' @ str_nat i @ '': '' @ str_exn e)])\<rparr>)"
      using rd Inl by (simp add: logger_def)
    moreover have "\<not> converts row" using Inl by (simp add: converts_def)
    ultimately show ?thesis by auto
  next
    case (Inr d)
    show ?thesis
    proof (cases d)
      case None
      have "read_loop i (row # batch) valid_records w =
         read_loop (Suc i) batch valid_records
           (w\<lparr>log := log w @ (l1 @ [(WARNING, ''Skipping None record at index '' @ str_nat i)])\<rparr>)"
        using rd Inr None by (simp add: logger_def)
      moreover have "\<not> converts row" using Inr None by (simp add: converts_def)
      ultimately show ?thesis by auto
    next
      case (Some record_dict)
      with Inr have ne: "record_dict \<noteq> []"
        using converted_Some_nonempty by simp
      have "read_loop i (row # batch) valid_records w =
         read_loop (Suc i) batch (valid_records @ [record_dict]) (w\<lparr>log := log w @ l1\<rparr>)"
        using rd Inr Some ne by simp
      moreover have "converts row" "mapping_of row = record_dict"
        using Inr Some by (simp_all add: converts_def mapping_of_def)
      ultimately show ?thesis by auto
    qed
  qed
qed

lemma read_loop_pair:
  "\<exists>l. read_loop i batch valid_records w =
     (valid_records @ spec_valid_records batch, w\<lparr>log := log w @ l\<rparr>)"
proof (induction batch arbitrary: i valid_records w)
  case Nil
  have "read_loop i [] valid_records w = (valid_records @ spec_valid_records [], w\<lparr>log := log w @ []\<rparr>)"
    by (simp add: spec_valid_records_def)
  then show ?case by blast
next
  case (Cons row batch)
  obtain l1 where step: "read_loop i (row # batch) valid_records w =
     read_loop (Suc i) batch
       (if converts row then valid_records @ [mapping_of row] else valid_records)
       (w\<lparr>log := log w @ l1\<rparr>)"
    using read_loop_step by blast
  obtain l2 where rest: "read_loop (Suc i) batch
       (if converts row then valid_records @ [mapping_of row] else valid_records)
       (w\<lparr>log := log w @ l1\<rparr>) =
     ((if converts row then valid_records @ [mapping_of row] else valid_records) @ spec_valid_records batch,
       (w\<lparr>log := log w @ l1\<rparr>)\<lparr>log := log (w\<lparr>log := log w @ l1\<rparr>) @ l2\<rparr>)"
    using Cons.IH by blast
  have "read_loop i (row # batch) valid_records w =
     (valid_records @ spec_valid_records (row # batch), w\<lparr>log := log w @ (l1 @ l2)\<rparr>)"
    unfolding step rest by (simp add: spec_valid_records_Cons)
  then show ?case by blast
qed




lemma db_query_SessionLocal: "db_query skip limit (snd (SessionLocal w)) = db_query skip limit w"
  by (simp add: db_query_def SessionLocal_def)

lemma db_query_log: "db_query skip limit (w\<lparr>log := l\<rparr>) = db_query skip limit w"
  by (simp add: db_query_def)

lemma read_music_discography_ok:
  assumes "db_query skip limit w = Inr batch"
  shows "\<exists>l l'. read_music_discography skip limit db w =
           (Returned (fst (read_loop 0 batch [] (w\<lparr>log := log w @ l\<rparr>))),
            (snd (read_loop 0 batch [] (w\<lparr>log := log w @ l\<rparr>)))
              \<lparr>log := log (snd (read_loop 0 batch [] (w\<lparr>log := log w @ l\<rparr>))) @ l'\<rparr>)"
proof -
  let ?l = "[(INFO, ''Querying database with skip='' @ str_int skip @ '', limit='' @ str_int limit),
             (INFO, ''Retrieved '' @ str_nat (length batch) @ '' records from database'')]"
  let ?r = "read_loop 0 batch [] (w\<lparr>log := log w @ ?l\<rparr>)"
  have "read_music_discography skip limit db w =
          (Returned (fst ?r),
           (snd ?r)\<lparr>log := log (snd ?r) @ [(INFO, ''Returning '' @ str_nat (length (fst ?r)) @ '' valid records'')]\<rparr>)"
    using assms
    by (simp add: read_music_discography_def db_query_log Let_def logger_def split: prod.splits)
  then show ?thesis by blast
qed

section \<open>Facts about the requests\<close>

lemma get_db_pair:
  "get_db request w =
     (fst (request (next_id w) (snd (SessionLocal w))),
      db_close (next_id w) (snd (request (next_id w) (snd (SessionLocal w)))))"
  by (simp add: get_db_def SessionLocal_def split: prod.splits outcome.splits)

lemma get_db_closes: "next_id w \<notin> set (opened (snd (get_db request w)))"
  by (simp add: get_db_pair db_close_def)

lemma get_db_opened:
  assumes "opened (snd (request (next_id w) (snd (SessionLocal w)))) = opened (snd (SessionLocal w))"
  shows "opened (snd (get_db request w)) = removeAll (next_id w) (opened w)"
  using assms by (simp add: get_db_pair db_close_def SessionLocal_def)


lemma read_music_discography_pair:
  assumes "db_query skip limit w = Inr batch"
  shows "\<exists>l. read_music_discography skip limit db w =
           (Returned (spec_valid_records batch), w\<lparr>log := log w @ l\<rparr>)"
proof -
  obtain l l' where a: "read_music_discography skip limit db w =
           (Returned (fst (read_loop 0 batch [] (w\<lparr>log := log w @ l\<rparr>))),
            (snd (read_loop 0 batch [] (w\<lparr>log := log w @ l\<rparr>)))
              \<lparr>log := log (snd (read_loop 0 batch [] (w\<lparr>log := log w @ l\<rparr>))) @ l'\<rparr>)"
    using read_music_discography_ok [OF assms] by blast
  obtain l2 where b: "read_loop 0 batch [] (w\<lparr>log := log w @ l\<rparr>) =
      ([] @ spec_valid_records batch, (w\<lparr>log := log w @ l\<rparr>)\<lparr>log := log (w\<lparr>log := log w @ l\<rparr>) @ l2\<rparr>)"
    using read_loop_pair by blast
  have "read_music_discography skip limit db w =
           (Returned (spec_valid_records batch), w\<lparr>log := log w @ (l @ l2 @ l')\<rparr>)"
    unfolding a b by simp
  then show ?thesis by blast
qed

lemma read_music_discography_fail:
  assumes "db_query skip limit w = Inl e"
  shows "read_music_discography skip limit db w =
           (Raised (HTTPException 500 (str_exn e)),
            w\<lparr>log := log w @ [(INFO, ''Querying database with skip='' @ str_int skip @ '', limit='' @ str_int limit),
                               (ERROR, ''Error in read_music_discography: '' @ str_exn e)]\<rparr>)"
  using assms by (simp add: read_music_discography_def db_query_log Let_def logger_def)

lemma read_music_discography_frame:
  "\<exists>l. snd (read_music_discography skip limit db w) = w\<lparr>log := log w @ l\<rparr>"
proof (cases "db_query skip limit w")
  case (Inl e)
  show ?thesis unfolding read_music_discography_fail [OF Inl] by (simp del: append.simps) blast
next
  case (Inr batch)
  then obtain l where "read_music_discography skip limit db w =
           (Returned (spec_valid_records batch), w\<lparr>log := log w @ l\<rparr>)"
    using read_music_discography_pair by blast
  then have "snd (read_music_discography skip limit db w) = w\<lparr>log := log w @ l\<rparr>" by simp
  then show ?thesis by blast
qed

lemma GET_music_discography_value:
  assumes "db_query skip limit w = Inr batch"
  shows "fst (GET_music_discography skip limit w) = Returned (spec_valid_records batch)"
proof -
  have "db_query skip limit (snd (SessionLocal w)) = Inr batch"
    using assms by (simp add: db_query_SessionLocal)
  then obtain l where "read_music_discography skip limit (next_id w) (snd (SessionLocal w)) =
           (Returned (spec_valid_records batch), (snd (SessionLocal w))\<lparr>log := log (snd (SessionLocal w)) @ l\<rparr>)"
    using read_music_discography_pair by blast
  then show ?thesis
    by (simp add: GET_music_discography_def get_db_pair)
qed

lemma GET_music_discography_world:
  "\<exists>l. snd (GET_music_discography skip limit w) =
     w\<lparr>pending := [], opened := removeAll (next_id w) (opened w), next_id := Suc (next_id w),
       log := log w @ l\<rparr>"
proof -
  obtain l where "snd (read_music_discography skip limit (next_id w) (snd (SessionLocal w))) =
      (snd (SessionLocal w))\<lparr>log := log (snd (SessionLocal w)) @ l\<rparr>"
    using read_music_discography_frame by blast
  then have "snd (GET_music_discography skip limit w) =
     w\<lparr>pending := [], opened := removeAll (next_id w) (opened w), next_id := Suc (next_id w),
       log := log w @ l\<rparr>"
    by (simp add: GET_music_discography_def get_db_pair db_close_def SessionLocal_def)
  then show ?thesis by blast
qed

lemma debug_loop_world: "snd (debug_loop py_dir i batch debug_info w) = w"
proof (induction batch arbitrary: i debug_info)
  case Nil
  then show ?case by simp
next
  case (Cons row batch)
  show ?case
  proof (cases row)
    case None
    then show ?thesis using Cons by simp
  next
    case (Some r)
    then show ?thesis using Cons
      by (cases "dict_comprehension r columns") (simp_all add: record_to_dict_def)
  qed
qed

lemma debug_loop_converts:
  "list_all converts batch \<Longrightarrow>
   \<exists>es. fst (debug_loop py_dir i batch debug_info w) = Inr (debug_info @ es) \<and>
        map data es = map Some (spec_valid_records batch)"
proof (induction batch arbitrary: i debug_info)
  case Nil
  then show ?case by (simp add: spec_valid_records_def)
next
  case (Cons row batch)
  then have cv: "converts row" and rest: "list_all converts batch" by simp_all
  from cv obtain d where d: "converted row = Inr (Some d)"
    by (auto simp add: converts_def split: sum.splits option.splits)
  then have ne: "row \<noteq> None" by (cases row) (simp_all add: converted_def)
  have rd: "record_to_dict row w = (Inr (Some d), w)"
    using d ne by (cases row) (auto simp add: record_to_dict_def converted_def split: sum.splits)
  let ?e = "\<lparr>index = i, type_name = py_type_name row, attributes = py_dir row,
              is_none = (row = None), data = Some d\<rparr>"
  obtain es where es: "fst (debug_loop py_dir (Suc i) batch (debug_info @ [?e]) w) = Inr ((debug_info @ [?e]) @ es)"
      and dat: "map data es = map Some (spec_valid_records batch)"
    using Cons.IH [OF rest] by blast
  have "fst (debug_loop py_dir i (row # batch) debug_info w) = Inr (debug_info @ (?e # es))"
    using rd ne es by simp
  moreover have "map data (?e # es) = map Some (spec_valid_records (row # batch))"
    using dat cv d by (simp add: spec_valid_records_Cons mapping_of_def)
  ultimately show ?case by blast
qed

lemma debug_music_discography_frame:
  "\<exists>l. snd (debug_music_discography py_dir skip limit db w) = w\<lparr>log := log w @ l\<rparr>"
proof (cases "db_query skip limit w")
  case (Inl e)
  have "snd (debug_music_discography py_dir skip limit db w) =
      w\<lparr>log := log w @ [(ERROR, ''Error in debug_music_discography: '' @ str_exn e)]\<rparr>"
    using Inl by (simp add: debug_music_discography_def logger_def)
  then show ?thesis by blast
next
  case (Inr batch)
  obtain x where x: "debug_loop py_dir 0 batch [] w = (x, w)"
    using debug_loop_world [of py_dir 0 batch "[]" w]
    by (cases "debug_loop py_dir 0 batch [] w") simp
  show ?thesis
  proof (cases x)
    case (Inl e)
    have "snd (debug_music_discography py_dir skip limit db w) =
      w\<lparr>log := log w @ [(ERROR, ''Error in debug_music_discography: '' @ str_exn e)]\<rparr>"
      using Inr x Inl by (simp add: debug_music_discography_def logger_def)
    then show ?thesis by blast
  next
    case (Inr debug_info)
    have "snd (debug_music_discography py_dir skip limit db w) = w\<lparr>log := log w @ []\<rparr>"
      using \<open>db_query skip limit w = Inr batch\<close> x Inr by (simp add: debug_music_discography_def)
    then show ?thesis by blast
  qed
qed

lemma GET_debug_music_discography_world:
  "\<exists>l. snd (GET_debug_music_discography py_dir skip limit w) =
     w\<lparr>pending := [], opened := removeAll (next_id w) (opened w), next_id := Suc (next_id w),
       log := log w @ l\<rparr>"
proof -
  obtain l where "snd (debug_music_discography py_dir skip limit (next_id w) (snd (SessionLocal w))) =
      (snd (SessionLocal w))\<lparr>log := log (snd (SessionLocal w)) @ l\<rparr>"
    using debug_music_discography_frame by blast
  then have "snd (GET_debug_music_discography py_dir skip limit w) =
     w\<lparr>pending := [], opened := removeAll (next_id w) (opened w), next_id := Suc (next_id w),
       log := log w @ l\<rparr>"
    by (simp add: GET_debug_music_discography_def get_db_pair db_close_def SessionLocal_def)
  then show ?thesis by blast
qed

lemma GET_debug_music_discography_value:
  assumes "db_query skip limit w = Inr batch" "list_all converts batch"
  shows "\<exists>es. fst (GET_debug_music_discography py_dir skip limit w) = Returned es \<and>
              map data es = map Some (spec_valid_records batch)"
proof -
  let ?w1 = "snd (SessionLocal w)"
  have q: "db_query skip limit ?w1 = Inr batch"
    using assms by (simp add: db_query_SessionLocal)
  obtain es where es: "fst (debug_loop py_dir 0 batch [] ?w1) = Inr ([] @ es)"
      and dat: "map data es = map Some (spec_valid_records batch)"
    using debug_loop_converts [OF assms(2)] by blast
  have "fst (debug_music_discography py_dir skip limit (next_id w) ?w1) = Returned es"
    using q es by (cases "debug_loop py_dir 0 batch [] ?w1") (simp add: debug_music_discography_def)
  then have "fst (GET_debug_music_discography py_dir skip limit w) = Returned es"
    by (simp add: GET_debug_music_discography_def get_db_pair)
  with dat show ?thesis by blast
qed

section \<open>Facts about create\<close>

lemma init_TYPE:
  "py_getattr (MusicDiscography_init (schema_dict record)) ''TYPE'' PyNone = Inr (opt_str (TYPE' record))"
  by (simp add: MusicDiscography_init_def schema_dict_def py_getattr_def)

lemma init_row_key:
  "row_key (Some (MusicDiscography_init (schema_dict record))) = Some (opt_str (TYPE' record))"
  by (simp add: row_key_def init_TYPE)

lemma init_values:
  "dict_comprehension (MusicDiscography_init (schema_dict record)) columns = Inr (schema_dict record)"
  by (simp add: MusicDiscography_init_def schema_dict_def py_getattr_def columns_def)

lemma init_converted:
  "converted (Some (MusicDiscography_init (schema_dict record))) = Inr (Some (schema_dict record))"
  by (simp add: converted_def init_values)

lemma schema_dict_TYPE:
  "map_of (schema_dict record) ''TYPE'' = Some (opt_str (TYPE' record))"
  by (simp add: schema_dict_def)

lemma find_append_fresh:
  "\<forall>x \<in> set xs. \<not> P x \<Longrightarrow> P y \<Longrightarrow> find P (xs @ [y]) = Some y"
  by (induction xs) simp_all

lemma insert_row_init:
  "insert_row (MusicDiscography_init (schema_dict record)) t =
     (case TYPE' record of
        None \<Rightarrow> Inl (FlushError ''Instance has a NULL identity key'')
      | Some k \<Rightarrow>
          (case null_columns (schema_dict record) of
             c # cs \<Rightarrow> Inl (IntegrityError (''Column '' @ c @ '' cannot be null''))
           | [] \<Rightarrow>
               if Some (PyStr k) \<in> set (map row_key t)
               then Inl (IntegrityError ''Duplicate entry for key PRIMARY'')
               else Inr (t @ [Some (MusicDiscography_init (schema_dict record))])))"
  by (simp add: insert_row_def init_values schema_dict_TYPE opt_str_def
      split: option.splits list.splits)

lemma insert_row_init_Inr:
  assumes "insert_row (MusicDiscography_init (schema_dict record)) t = Inr t'"
  shows "\<exists>k. TYPE' record = Some k \<and> null_columns (schema_dict record) = [] \<and>
             Some (PyStr k) \<notin> set (map row_key t) \<and>
             t' = t @ [Some (MusicDiscography_init (schema_dict record))]"
  using assms unfolding insert_row_init
  by (auto split: option.splits list.splits if_splits)

lemma create_music_discography_ok:
  assumes "TYPE' record = Some k" "null_columns (schema_dict record) = []"
    "Some (PyStr k) \<notin> set (map row_key (table w))" "pending w = []"
  shows "create_music_discography record db w =
           (Returned (MusicDiscography_init (schema_dict record)),
            w\<lparr>table := table w @ [Some (MusicDiscography_init (schema_dict record))], pending := []\<rparr>)"
proof -
  let ?obj = "MusicDiscography_init (schema_dict record)"
  have "insert_row ?obj (table w) = Inr (table w @ [Some ?obj])"
    using assms(1-3) by (simp add: insert_row_init)
  then have commit: "db_commit (db_add ?obj w) = (None, w\<lparr>table := table w @ [Some ?obj], pending := []\<rparr>)"
    using assms(4) by (simp add: db_commit_def db_add_def)
  have key: "row_key (Some ?obj) = Some (PyStr k)"
    using assms(1) by (simp add: init_row_key opt_str_def)
  have "\<forall>x \<in> set (table w). \<not> (row_key x = row_key (Some ?obj))"
    using assms(3) key by (metis image_eqI set_map)
  then have "find (\<lambda>row. row_key row = row_key (Some ?obj)) (table w @ [Some ?obj]) = Some (Some ?obj)"
    by (rule find_append_fresh) simp
  then have refresh: "db_refresh ?obj (w\<lparr>table := table w @ [Some ?obj], pending := []\<rparr>) = Inr ?obj"
    by (simp add: db_refresh_def)
  show ?thesis
    using commit refresh by (simp add: create_music_discography_def Let_def)
qed

lemma create_music_discography_raises:
  assumes "insert_row (MusicDiscography_init (schema_dict record)) (table w) = Inl e" "pending w = []"
  shows "create_music_discography record db w =
           (Raised e, w\<lparr>pending := [MusicDiscography_init (schema_dict record)]\<rparr>)"
proof -
  let ?obj = "MusicDiscography_init (schema_dict record)"
  have "db_commit (db_add ?obj w) = (Some e, w\<lparr>pending := [?obj]\<rparr>)"
    using assms by (simp add: db_commit_def db_add_def)
  then show ?thesis
    by (simp add: create_music_discography_def Let_def)
qed

lemma model_validate_Inr:
  "model_validate p body = Inr record \<Longrightarrow> list_all (field_ok p body) columns"
  by (auto simp add: model_validate_def filter_empty_conv list_all_iff split: if_splits)

lemma validate_body_model:
  "validate_body p body = Inr record \<longleftrightarrow> model_validate p body = Inr record"
  by (simp add: validate_body_def split: sum.splits)

lemma validate_body_Inl:
  "validate_body p body = Inl e \<Longrightarrow> \<exists>names. e = RequestValidationError names"
  by (auto simp add: validate_body_def split: sum.splits)

lemma validate_body_TYPE:
  "validate_body p body = Inr record \<Longrightarrow> TYPE' record = str_field body ''TYPE''"
  by (auto simp add: validate_body_model model_validate_def split: if_splits)

lemma validate_body_Inr:
  "validate_body p body = Inr record \<Longrightarrow> list_all (field_ok p body) columns"
  by (simp add: validate_body_model model_validate_Inr)

lemma POST_music_discography_pair:
  "POST_music_discography p body w =
     (case validate_body p body of
        Inl e \<Rightarrow> (Raised e, db_close (next_id w) (snd (SessionLocal w)))
      | Inr record \<Rightarrow>
          (fst (create_music_discography record (next_id w) (snd (SessionLocal w))),
           db_close (next_id w) (snd (create_music_discography record (next_id w) (snd (SessionLocal w))))))"
  by (simp add: POST_music_discography_def get_db_pair split: sum.splits)

lemma pending_SessionLocal: "pending (snd (SessionLocal w)) = []"
  by (simp add: SessionLocal_def)

lemma table_SessionLocal: "table (snd (SessionLocal w)) = table w"
  by (simp add: SessionLocal_def)

lemma POST_music_discography_ok:
  assumes "validate_body p body = Inr record" "TYPE' record = Some k"
    "null_columns (schema_dict record) = []"
    "Some (PyStr k) \<notin> set (map row_key (table w))"
  shows "POST_music_discography p body w =
           (Returned (MusicDiscography_init (schema_dict record)),
            w\<lparr>table := table w @ [Some (MusicDiscography_init (schema_dict record))],
              pending := [], opened := removeAll (next_id w) (opened w), next_id := Suc (next_id w)\<rparr>)"
proof -
  have "create_music_discography record (next_id w) (snd (SessionLocal w)) =
           (Returned (MusicDiscography_init (schema_dict record)),
            (snd (SessionLocal w))\<lparr>table := table (snd (SessionLocal w)) @ [Some (MusicDiscography_init (schema_dict record))], pending := []\<rparr>)"
    using assms(2-4) by (intro create_music_discography_ok) (simp_all add: SessionLocal_def)
  then show ?thesis
    using assms(1) by (simp add: POST_music_discography_pair db_close_def SessionLocal_def)
qed

lemma POST_music_discography_raises:
  assumes "validate_body p body = Inr record"
    "insert_row (MusicDiscography_init (schema_dict record)) (table w) = Inl e"
  shows "POST_music_discography p body w =
           (Raised e, w\<lparr>pending := [], opened := removeAll (next_id w) (opened w), next_id := Suc (next_id w)\<rparr>)"
proof -
  let ?w1 = "snd (SessionLocal w)"
  have "insert_row (MusicDiscography_init (schema_dict record)) (table ?w1) = Inl e"
    using assms(2) by (simp add: table_SessionLocal)
  then have "create_music_discography record (next_id w) ?w1 =
           (Raised e, ?w1\<lparr>pending := [MusicDiscography_init (schema_dict record)]\<rparr>)"
    using pending_SessionLocal by (rule create_music_discography_raises)
  then show ?thesis
    using assms(1) by (simp add: POST_music_discography_pair db_close_def SessionLocal_def)
qed

lemma POST_music_discography_invalid:
  assumes "validate_body p body = Inl e"
  shows "POST_music_discography p body w =
           (Raised e, w\<lparr>pending := [], opened := removeAll (next_id w) (opened w), next_id := Suc (next_id w)\<rparr>)"
  using assms by (simp add: POST_music_discography_pair db_close_def SessionLocal_def)

text \<open>A create request either leaves the table or appends the row it returns.\<close>

lemma POST_music_discography_cases:
  obtains (invalid) names where "validate_body p body = Inl (RequestValidationError names)"
      "POST_music_discography p body w =
         (Raised (RequestValidationError names),
          w\<lparr>pending := [], opened := removeAll (next_id w) (opened w), next_id := Suc (next_id w)\<rparr>)"
  | (refused) r e where "validate_body p body = Inr r"
      "insert_row (MusicDiscography_init (schema_dict r)) (table w) = Inl e"
      "POST_music_discography p body w =
         (Raised e, w\<lparr>pending := [], opened := removeAll (next_id w) (opened w), next_id := Suc (next_id w)\<rparr>)"
  | (created) r k where "validate_body p body = Inr r" "TYPE' r = Some k"
      "null_columns (schema_dict r) = []" "Some (PyStr k) \<notin> set (map row_key (table w))"
      "POST_music_discography p body w =
         (Returned (MusicDiscography_init (schema_dict r)),
          w\<lparr>table := table w @ [Some (MusicDiscography_init (schema_dict r))],
            pending := [], opened := removeAll (next_id w) (opened w), next_id := Suc (next_id w)\<rparr>)"
proof (cases "validate_body p body")
  case (Inl e)
  then obtain names where "e = RequestValidationError names"
    using validate_body_Inl by blast
  with Inl show ?thesis
    using invalid POST_music_discography_invalid by blast
next
  case (Inr r)
  show ?thesis
  proof (cases "insert_row (MusicDiscography_init (schema_dict r)) (table w)")
    case (Inl e)
    with Inr show ?thesis
      using refused POST_music_discography_raises by blast
  next
    case ins: (Inr t')
    then obtain k where k: "TYPE' r = Some k" "null_columns (schema_dict r) = []"
        "Some (PyStr k) \<notin> set (map row_key (table w))"
      using insert_row_init_Inr by blast
    with Inr show ?thesis
      using created POST_music_discography_ok by blast
  qed
qed

section \<open>The list endpoint\<close>

lemma converts_converted: "converts row \<Longrightarrow> converted row = Inr (Some (mapping_of row))"
  by (simp add: converts_def mapping_of_def split: sum.splits option.splits)

lemma subseq_spec_valid_records:
  "subseq (map (\<lambda>d. Inr (Some d)) (spec_valid_records batch)) (map converted batch)"
proof -
  have "map (\<lambda>d. Inr (Some d)) (spec_valid_records batch) = map converted (filter converts batch)"
    by (simp add: spec_valid_records_def converts_converted)
  moreover have "subseq (map converted (filter converts batch)) (map converted batch)"
    by (simp add: subseq_map)
  ultimately show ?thesis by simp
qed

text \<open>
  C9. Whenever the query of a list request yields a batch, the request returns
  \<open>record_to_dict\<close> mapped over exactly the rows of the batch that are not None and
  convert without error, in the order of the batch; the loop alone computes the same from
  any batch. The output, entry by entry, is a subsequence of the conversions of the batch:
  nothing is reordered, duplicated or invented.
\<close>

theorem list_output_is_converted_batch:
  assumes "db_query skip limit w = Inr batch"
  shows "fst (GET_music_discography skip limit w) = Returned (spec_valid_records batch) \<and>
         fst (read_loop 0 batch [] w') = spec_valid_records batch \<and>
         subseq (map (\<lambda>d. Inr (Some d)) (spec_valid_records batch)) (map converted batch)"
proof (intro conjI)
  show "fst (GET_music_discography skip limit w) = Returned (spec_valid_records batch)"
    using assms by (rule GET_music_discography_value)
  obtain l where "read_loop 0 batch [] w' = ([] @ spec_valid_records batch, w'\<lparr>log := log w' @ l\<rparr>)"
    using read_loop_pair by blast
  then show "fst (read_loop 0 batch [] w') = spec_valid_records batch" by simp
  show "subseq (map (\<lambda>d. Inr (Some d)) (spec_valid_records batch)) (map converted batch)"
    by (rule subseq_spec_valid_records)
qed

theorem list_output_is_converted_batch_witness:
  "db_query 0 100 (world_of [None, Some lp1, Some raising_row, Some lp2]) =
     Inr [None, Some lp1, Some raising_row, Some lp2] \<and>
   fst (GET_music_discography 0 100 (world_of [None, Some lp1, Some raising_row, Some lp2])) =
     Returned
       [[(''TYPE'', PyStr ''LP1''), (''SDATE'', PyNone), (''SALENUMBER'', PyNone),
         (''ORDER'', PyStr ''A''), (''MTITLE'', PyStr ''X''), (''MAINCOLOR'', PyNone),
         (''LABEL'', PyStr ''L''), (''GROUP'', PyStr ''G''), (''CENTER'', PyStr ''C'')],
        [(''TYPE'', PyStr ''LP2''), (''SDATE'', PyNone), (''SALENUMBER'', PyNone),
         (''ORDER'', PyStr ''B''), (''MTITLE'', PyStr ''Y''), (''MAINCOLOR'', PyNone),
         (''LABEL'', PyStr ''L''), (''GROUP'', PyStr ''G''), (''CENTER'', PyStr ''C'')]]"
proof -
  have h: "db_query 0 100 (world_of [None, Some lp1, Some raising_row, Some lp2]) =
     Inr [None, Some lp1, Some raising_row, Some lp2]"
    by (simp add: db_query_def world_of_def)
  have v: "spec_valid_records [None, Some lp1, Some raising_row, Some lp2] =
       [[(''TYPE'', PyStr ''LP1''), (''SDATE'', PyNone), (''SALENUMBER'', PyNone),
         (''ORDER'', PyStr ''A''), (''MTITLE'', PyStr ''X''), (''MAINCOLOR'', PyNone),
         (''LABEL'', PyStr ''L''), (''GROUP'', PyStr ''G''), (''CENTER'', PyStr ''C'')],
        [(''TYPE'', PyStr ''LP2''), (''SDATE'', PyNone), (''SALENUMBER'', PyNone),
         (''ORDER'', PyStr ''B''), (''MTITLE'', PyStr ''Y''), (''MAINCOLOR'', PyNone),
         (''LABEL'', PyStr ''L''), (''GROUP'', PyStr ''G''), (''CENTER'', PyStr ''C'')]]"
    by code_simp
  show ?thesis
    using h v list_output_is_converted_batch [OF h] by simp
qed


lemma respond_Returned:
  "respond response_model (Returned v) =
     (case response_model v of
        Some body \<Rightarrow> (200, Json body)
      | None \<Rightarrow> (500, PlainText ''Internal Server Error''))"
  by (simp add: respond_def)

text \<open>
  The response model can fail a request the handler served: with a None row, which the
  loop skips, and a row whose SDATE is the zero-date string, which converts but is no
  date for any validator that reads none from that string, the answer is 500.
\<close>

lemma zero_date_row_fails_response:
  assumes "parse_date ''0000-00-00'' = None"
  shows "fst (GET_music_discography 0 100 (world_of [None, Some zero_date_row])) =
           Returned [mapping_of (Some zero_date_row)] \<and>
         respond (response_model_list parse_date)
           (fst (GET_music_discography 0 100 (world_of [None, Some zero_date_row]))) =
           (500, PlainText ''Internal Server Error'')"
proof -
  have q: "db_query 0 100 (world_of [None, Some zero_date_row]) = Inr [None, Some zero_date_row]"
    by (simp add: db_query_def world_of_def)
  have m: "converted (Some zero_date_row) =
      Inr (Some [(''TYPE'', PyStr ''LP0''), (''SDATE'', PyStr ''0000-00-00''), (''SALENUMBER'', PyNone),
                 (''ORDER'', PyStr ''A''), (''MTITLE'', PyStr ''Z''), (''MAINCOLOR'', PyNone),
                 (''LABEL'', PyStr ''L''), (''GROUP'', PyStr ''G''), (''CENTER'', PyStr ''C'')])"
    by (simp add: converted_def zero_date_row_def columns_def py_getattr_def)
  have "converts (Some zero_date_row)" "\<not> converts None"
    by (simp_all add: converts_def m) (simp add: converted_def)
  then have v: "spec_valid_records [None, Some zero_date_row] = [mapping_of (Some zero_date_row)]"
    by (simp add: spec_valid_records_def)
  have ret: "fst (GET_music_discography 0 100 (world_of [None, Some zero_date_row])) =
           Returned [mapping_of (Some zero_date_row)]"
    using GET_music_discography_value [OF q] v by simp
  have "\<not> field_ok parse_date (mapping_of (Some zero_date_row)) ''SDATE''"
    using assms by (simp add: field_ok_def mapping_of_def m)
  then have "\<exists>names. model_validate parse_date (mapping_of (Some zero_date_row)) = Inl names"
    by (auto simp add: model_validate_def columns_def)
  then have "response_model_list parse_date [mapping_of (Some zero_date_row)] = None"
    by auto
  with ret show ?thesis
    by (simp add: respond_Returned)
qed



section \<open>The debug endpoint against the list endpoint\<close>

text \<open>
  C3, as stated, fails when the batch holds a row that is None: the list skips it, the
  debug list reports it with \<open>is_none\<close> set and no data.
\<close>

theorem debug_list_longer_than_list:
  "fst (GET_music_discography 0 10 (world_of [None])) = Returned [] \<and>
   fst (GET_debug_music_discography (\<lambda>r. []) 0 10 (world_of [None])) =
     Returned [\<lparr>index = 0, type_name = ''NoneType'', attributes = [], is_none = True, data = None\<rparr>]"
  by code_simp

text \<open>
  C3, amended. For every store state and every identical \<open>skip\<close>/\<open>limit\<close> pair whose
  fetched batch holds only rows that convert (none is None, none raises on conversion),
  both requests return, the debug list is as long as the list, and the \<open>data\<close> field of
  the i-th debug entry is the i-th list entry.
\<close>

theorem debug_list_matches_list:
  assumes "db_query skip limit w = Inr batch" "list_all converts batch"
  shows "\<exists>ds es. fst (GET_music_discography skip limit w) = Returned ds \<and>
           fst (GET_debug_music_discography py_dir skip limit w) = Returned es \<and>
           length es = length ds \<and>
           (\<forall>i < length ds. data (es ! i) = Some (ds ! i))"
proof -
  let ?ds = "spec_valid_records batch"
  have ds: "fst (GET_music_discography skip limit w) = Returned ?ds"
    using assms(1) by (rule GET_music_discography_value)
  obtain es where es: "fst (GET_debug_music_discography py_dir skip limit w) = Returned es"
      and dat: "map data es = map Some ?ds"
    using GET_debug_music_discography_value [OF assms] by blast
  from dat have len: "length es = length ?ds"
    using length_map by metis
  have "\<forall>i < length ?ds. data (es ! i) = Some (?ds ! i)"
  proof (intro allI impI)
    fix i assume i: "i < length ?ds"
    then have "data (es ! i) = map data es ! i" using len by simp
    also have "\<dots> = Some (?ds ! i)" using dat i by simp
    finally show "data (es ! i) = Some (?ds ! i)" .
  qed
  with ds es len show ?thesis by blast
qed

theorem debug_list_matches_list_witness:
  "db_query 0 10 (world_of [Some lp1, Some lp2]) = Inr [Some lp1, Some lp2] \<and>
   list_all converts [Some lp1, Some lp2] \<and>
   (\<exists>ds es. fst (GET_music_discography 0 10 (world_of [Some lp1, Some lp2])) = Returned ds \<and>
      fst (GET_debug_music_discography (\<lambda>r. []) 0 10 (world_of [Some lp1, Some lp2])) = Returned es \<and>
      length es = length ds \<and> length ds = 2 \<and> data (es ! 1) = Some (ds ! 1))"
proof -
  have h: "db_query 0 10 (world_of [Some lp1, Some lp2]) = Inr [Some lp1, Some lp2]"
    by (simp add: db_query_def world_of_def)
  have c: "list_all converts [Some lp1, Some lp2]"
    by code_simp
  have l: "fst (GET_music_discography 0 10 (world_of [Some lp1, Some lp2])) =
             Returned [mapping_of (Some lp1), mapping_of (Some lp2)]"
    using GET_music_discography_value [OF h] c by (simp add: spec_valid_records_def)
  obtain ds es where "fst (GET_music_discography 0 10 (world_of [Some lp1, Some lp2])) = Returned ds"
      "fst (GET_debug_music_discography (\<lambda>r. []) 0 10 (world_of [Some lp1, Some lp2])) = Returned es"
      "length es = length ds" "\<forall>i < length ds. data (es ! i) = Some (ds ! i)"
    using debug_list_matches_list [OF h c] by blast
  with l h c show ?thesis by auto
qed

section \<open>Sessions\<close>

lemma create_music_discography_opened:
  "opened (snd (create_music_discography record db w)) = opened w"
  by (simp add: create_music_discography_def db_commit_def db_add_def Let_def
      split: sum.splits prod.splits option.splits)

text \<open>
  C7. Whatever the request does between the yield and the finally clause of \<open>get_db\<close>,
  and whether it returns or raises, the session it was given is not open afterwards. For
  each of the three endpoints the open sessions after the request are those from before,
  without the request's own.
\<close>

theorem session_closed_on_every_path:
  "next_id w \<notin> set (opened (snd (get_db request w))) \<and>
   opened (snd (GET_music_discography skip limit w)) = removeAll (next_id w) (opened w) \<and>
   opened (snd (GET_debug_music_discography py_dir skip limit w)) = removeAll (next_id w) (opened w) \<and>
   opened (snd (POST_music_discography parse_date body w)) = removeAll (next_id w) (opened w)"
proof (intro conjI)
  show "next_id w \<notin> set (opened (snd (get_db request w)))"
    by (rule get_db_closes)
  obtain l where "snd (GET_music_discography skip limit w) =
     w\<lparr>pending := [], opened := removeAll (next_id w) (opened w), next_id := Suc (next_id w),
       log := log w @ l\<rparr>"
    using GET_music_discography_world by blast
  then show "opened (snd (GET_music_discography skip limit w)) = removeAll (next_id w) (opened w)"
    by simp
  obtain l where "snd (GET_debug_music_discography py_dir skip limit w) =
     w\<lparr>pending := [], opened := removeAll (next_id w) (opened w), next_id := Suc (next_id w),
       log := log w @ l\<rparr>"
    using GET_debug_music_discography_world by blast
  then show "opened (snd (GET_debug_music_discography py_dir skip limit w)) = removeAll (next_id w) (opened w)"
    by simp
  show "opened (snd (POST_music_discography parse_date body w)) = removeAll (next_id w) (opened w)"
    unfolding POST_music_discography_def
    by (rule get_db_opened) (simp add: create_music_discography_opened split: sum.splits)
qed

theorem session_closed_on_every_path_witness:
  "opened (snd (POST_music_discography no_date [(''TYPE'', PyStr ''LP1'')] (world_of [Some lp1]))) = [] \<and>
   fst (POST_music_discography no_date [(''TYPE'', PyStr ''LP1'')] (world_of [Some lp1])) =
     Raised (IntegrityError ''Column ORDER cannot be null'') \<and>
   opened (snd (GET_music_discography (- 1) 10 (world_of [Some lp1]))) = []"
proof -
  have r: "fst (POST_music_discography no_date [(''TYPE'', PyStr ''LP1'')] (world_of [Some lp1])) =
     Raised (IntegrityError ''Column ORDER cannot be null'')"
    by code_simp
  show ?thesis
    using r session_closed_on_every_path
      [of "world_of [Some lp1]" "\<lambda>db w. (Returned (), w)" "- 1" 10 "\<lambda>r. []"
          no_date "[(''TYPE'', PyStr ''LP1'')]"]
    by (simp add: world_of_def)
qed

section \<open>Reads leave the store alone\<close>

text \<open>
  C8. The list and the debug list leave the table as it was, for every store state and
  every \<open>skip\<close> and \<open>limit\<close>; a create request leaves it as it was or adds one row at
  the end.
\<close>

theorem reads_leave_store_unchanged:
  "table (snd (GET_music_discography skip limit w)) = table w \<and>
   table (snd (GET_debug_music_discography py_dir skip limit w)) = table w \<and>
   (table (snd (POST_music_discography parse_date body w)) = table w \<or>
    (\<exists>obj. table (snd (POST_music_discography parse_date body w)) = table w @ [Some obj]))"
proof (intro conjI)
  obtain l where "snd (GET_music_discography skip limit w) =
     w\<lparr>pending := [], opened := removeAll (next_id w) (opened w), next_id := Suc (next_id w),
       log := log w @ l\<rparr>"
    using GET_music_discography_world by blast
  then show "table (snd (GET_music_discography skip limit w)) = table w"
    by simp
  obtain l where "snd (GET_debug_music_discography py_dir skip limit w) =
     w\<lparr>pending := [], opened := removeAll (next_id w) (opened w), next_id := Suc (next_id w),
       log := log w @ l\<rparr>"
    using GET_debug_music_discography_world by blast
  then show "table (snd (GET_debug_music_discography py_dir skip limit w)) = table w"
    by simp
  show "table (snd (POST_music_discography parse_date body w)) = table w \<or>
    (\<exists>obj. table (snd (POST_music_discography parse_date body w)) = table w @ [Some obj])"
    by (cases rule: POST_music_discography_cases [of parse_date body w]) simp_all
qed

theorem reads_leave_store_unchanged_witness:
  "table (snd (GET_music_discography 0 1 (world_of [Some lp1, Some lp2]))) = [Some lp1, Some lp2] \<and>
   table (snd (GET_debug_music_discography (\<lambda>r. []) 0 1 (world_of [Some lp1, Some lp2]))) = [Some lp1, Some lp2] \<and>
   length (table (snd (POST_music_discography no_date
     [(''TYPE'', PyStr ''LP3''), (''ORDER'', PyStr ''A''), (''MTITLE'', PyStr ''Y''),
      (''LABEL'', PyStr ''L''), (''GROUP'', PyStr ''G''), (''CENTER'', PyStr ''C'')]
     (world_of [Some lp1, Some lp2])))) = 3"
proof -
  have p: "length (table (snd (POST_music_discography no_date
     [(''TYPE'', PyStr ''LP3''), (''ORDER'', PyStr ''A''), (''MTITLE'', PyStr ''Y''),
      (''LABEL'', PyStr ''L''), (''GROUP'', PyStr ''G''), (''CENTER'', PyStr ''C'')]
     (world_of [Some lp1, Some lp2])))) = 3"
    by code_simp
  show ?thesis
    using p reads_leave_store_unchanged
      [of 0 1 "world_of [Some lp1, Some lp2]" "\<lambda>r. []" no_date
          "[(''TYPE'', PyStr ''LP3''), (''ORDER'', PyStr ''A''), (''MTITLE'', PyStr ''Y''),
            (''LABEL'', PyStr ''L''), (''GROUP'', PyStr ''G''), (''CENTER'', PyStr ''C'')]"]
    by (simp add: world_of_def)
qed

section \<open>Skip and limit\<close>

lemma map_filter_append:
  "List.map_filter f (xs @ ys) = List.map_filter f xs @ List.map_filter f ys"
  by (induction xs) (simp_all split: option.splits)

lemma in_map_filter:
  "x \<in> set xs \<Longrightarrow> f x = Some y \<Longrightarrow> y \<in> set (List.map_filter f xs)"
  by (induction xs) (auto split: option.splits)

lemma mapping_key:
  assumes "converts row"
  shows "row_key row = map_of (mapping_of row) ''TYPE'' \<and> row_key row \<noteq> None"
proof -
  from assms obtain r where r: "row = Some r"
    by (cases row) (simp_all add: converts_def converted_def)
  have wf: "well_formed r"
  proof (rule ccontr)
    assume "\<not> well_formed r"
    then obtain e where "converted (Some r) = Inl e"
      using converted_ill_formed by blast
    with assms r show False by (simp add: converts_def)
  qed
  then have m: "mapping_of row = map (\<lambda>c. (c, attr_or_None r c)) columns"
    using r by (simp add: mapping_of_def converted_well_formed)
  have "reads_ok r ''TYPE''"
    using wf by (simp add: well_formed_def columns_def)
  then have k: "row_key row = Some (attr_or_None r ''TYPE'')"
    using r by (simp add: row_key_def py_getattr_reads_ok)
  have "''TYPE'' \<in> set columns" by (simp add: columns_def)
  then have "map_of (mapping_of row) ''TYPE'' = Some (attr_or_None r ''TYPE'')"
    unfolding m by (rule map_of_tabulate)
  with k show ?thesis by simp
qed

lemma in_spec_valid_records:
  "d \<in> set (spec_valid_records batch) \<Longrightarrow> \<exists>row \<in> set batch. converts row \<and> d = mapping_of row"
  by (auto simp add: spec_valid_records_def)

lemma spec_valid_records_key:
  assumes "d \<in> set (spec_valid_records batch)"
  shows "\<exists>k. map_of d ''TYPE'' = Some k \<and> k \<in> set (List.map_filter row_key batch)"
proof -
  obtain row where row: "row \<in> set batch" "converts row" "d = mapping_of row"
    using in_spec_valid_records [OF assms] by blast
  have a: "row_key row = map_of d ''TYPE''" and b: "row_key row \<noteq> None"
    using mapping_key [OF row(2)] row(3) by blast+
  from b obtain k where "row_key row = Some k"
    by (cases "row_key row") simp_all
  with a have k: "row_key row = Some k" "map_of d ''TYPE'' = Some k"
    by simp_all
  with row(1) have "k \<in> set (List.map_filter row_key batch)"
    using in_map_filter by fastforce
  with k show ?thesis by blast
qed

lemma length_spec_valid_records: "length (spec_valid_records batch) \<le> length batch"
  by (simp add: spec_valid_records_def)

text \<open>
  C4. For a non-negative \<open>skip\<close>, a positive \<open>limit\<close> and a store that keeps its primary
  key unique, the list request returns, with at most \<open>limit\<close> mappings, none of which is
  the mapping of one of the first \<open>skip\<close> rows of the table; on an empty table it answers
  200 with the empty list.
\<close>

theorem list_respects_skip_and_limit:
  assumes "0 \<le> skip" "0 < limit" "pk_unique (table w)"
  shows "\<exists>ds. fst (GET_music_discography skip limit w) = Returned ds \<and>
           length ds \<le> nat limit \<and>
           (\<forall>d \<in> set ds. d \<notin> set (spec_valid_records (take (nat skip) (table w)))) \<and>
           (table w = [] \<longrightarrow>
              respond (response_model_list parse_date) (fst (GET_music_discography skip limit w)) =
                (200, Json []))"
proof -
  let ?first = "take (nat skip) (table w)"
  let ?rest = "drop (nat skip) (table w)"
  let ?batch = "take (nat limit) ?rest"
  let ?ds = "spec_valid_records ?batch"
  have q: "db_query skip limit w = Inr ?batch"
    using assms(1,2) by (simp add: db_query_def)
  have ret: "fst (GET_music_discography skip limit w) = Returned ?ds"
    using q by (rule GET_music_discography_value)
  have "length ?ds \<le> length ?batch"
    by (rule length_spec_valid_records)
  then have len: "length ?ds \<le> nat limit" by simp
  have "distinct (List.map_filter row_key (?first @ ?rest))"
    using assms(3) by (simp add: pk_unique_def)
  then have "distinct (List.map_filter row_key ?first @ List.map_filter row_key ?rest)"
    unfolding map_filter_append .
  then have disj: "set (List.map_filter row_key ?first) \<inter> set (List.map_filter row_key ?rest) = {}"
    by simp
  have notfirst: "\<forall>d \<in> set ?ds. d \<notin> set (spec_valid_records ?first)"
  proof
    fix d assume d: "d \<in> set ?ds"
    show "d \<notin> set (spec_valid_records ?first)"
    proof
      assume d': "d \<in> set (spec_valid_records ?first)"
      obtain k where k: "map_of d ''TYPE'' = Some k" "k \<in> set (List.map_filter row_key ?batch)"
        using spec_valid_records_key [OF d] by blast
      obtain k' where k': "map_of d ''TYPE'' = Some k'" "k' \<in> set (List.map_filter row_key ?first)"
        using spec_valid_records_key [OF d'] by blast
      have "?rest = ?batch @ drop (nat limit) ?rest"
        by (rule append_take_drop_id [symmetric])
      then have "List.map_filter row_key ?rest =
          List.map_filter row_key ?batch @ List.map_filter row_key (drop (nat limit) ?rest)"
        using map_filter_append by metis
      then have "k \<in> set (List.map_filter row_key ?rest)"
        using k(2) by simp
      moreover have "k = k'" using k(1) k'(1) by simp
      ultimately show False using disj k'(2) by blast
    qed
  qed
  have "table w = [] \<longrightarrow>
          respond (response_model_list parse_date) (fst (GET_music_discography skip limit w)) =
            (200, Json [])"
    using ret by (simp add: respond_Returned spec_valid_records_def)
  with ret len notfirst show ?thesis by blast
qed

theorem list_respects_skip_and_limit_witness:
  "(0::int) \<le> 1 \<and> (0::int) < 1 \<and> pk_unique (table (world_of [Some lp1, Some lp2])) \<and>
   fst (GET_music_discography 1 1 (world_of [Some lp1, Some lp2])) = Returned [mapping_of (Some lp2)] \<and>
   mapping_of (Some lp2) \<notin> set (spec_valid_records (take (nat 1) (table (world_of [Some lp1, Some lp2]))))"
proof -
  have p: "pk_unique (table (world_of [Some lp1, Some lp2]))"
    by code_simp
  have r: "fst (GET_music_discography 1 1 (world_of [Some lp1, Some lp2])) = Returned [mapping_of (Some lp2)]"
    by code_simp
  show ?thesis
    using p r list_respects_skip_and_limit [of 1 1 "world_of [Some lp1, Some lp2]"]
    by simp
qed

section \<open>Create\<close>

lemma map_filter_mem:
  "y \<in> set (List.map_filter f xs) \<Longrightarrow> Some y \<in> set (map f xs)"
  by (induction xs) (auto split: option.splits)

lemma POST_preserves_pk_unique:
  assumes "pk_unique (table w)"
  shows "pk_unique (table (snd (POST_music_discography p body w)))"
proof (cases rule: POST_music_discography_cases [of p body w])
  case (invalid names)
  then show ?thesis using assms by simp
next
  case (refused r e)
  then show ?thesis using assms by simp
next
  case (created r k)
  have "PyStr k \<notin> set (List.map_filter row_key (table w))"
    using created(4) map_filter_mem by fastforce
  moreover have "row_key (Some (MusicDiscography_init (schema_dict r))) = Some (PyStr k)"
    using created(2) by (simp add: init_row_key opt_str_def)
  ultimately have "pk_unique (table w @ [Some (MusicDiscography_init (schema_dict r))])"
    using assms by (simp add: pk_unique_def map_filter_append)
  then show ?thesis using created(5) by simp
qed

lemma str_field_kept:
  "field_ok p body f \<Longrightarrow> f \<noteq> ''SDATE'' \<Longrightarrow> map_of body f = Some v \<Longrightarrow>
   opt_str (str_field body f) = stored_value p f v"
  by (cases v) (simp_all add: field_ok_def str_field_def opt_str_def stored_value_def)

lemma date_field_kept:
  "field_ok p body ''SDATE'' \<Longrightarrow> map_of body ''SDATE'' = Some v \<Longrightarrow>
   opt_date (date_field p body ''SDATE'') = stored_value p ''SDATE'' v"
  by (cases v) (simp_all add: field_ok_def date_field_def opt_date_def stored_value_def)

lemma validate_body_record:
  "validate_body p body = Inr record \<Longrightarrow>
   schema_dict record =
     [(''TYPE'', opt_str (str_field body ''TYPE'')), (''SDATE'', opt_date (date_field p body ''SDATE'')),
      (''SALENUMBER'', opt_str (str_field body ''SALENUMBER'')), (''ORDER'', opt_str (str_field body ''ORDER'')),
      (''MTITLE'', opt_str (str_field body ''MTITLE'')), (''MAINCOLOR'', opt_str (str_field body ''MAINCOLOR'')),
      (''LABEL'', opt_str (str_field body ''LABEL'')), (''GROUP'', opt_str (str_field body ''GROUP'')),
      (''CENTER'', opt_str (str_field body ''CENTER''))]"
  by (auto simp add: validate_body_model model_validate_def schema_dict_def split: if_splits)

lemma validate_body_tabulate:
  assumes "validate_body p body = Inr record"
  shows "schema_dict record =
           map (\<lambda>c. (c, if c = ''SDATE'' then opt_date (date_field p body c)
                         else opt_str (str_field body c))) columns"
  unfolding validate_body_record [OF assms] by (simp add: columns_def)

lemma submitted_fields_kept:
  assumes "validate_body p body = Inr record" "f \<in> set columns" "map_of body f = Some v"
  shows "map_of (schema_dict record) f = Some (stored_value p f v)"
proof -
  have ok: "field_ok p body f"
    using validate_body_Inr [OF assms(1)] assms(2) by (simp add: list_all_iff)
  have "map_of (schema_dict record) f =
          Some (if f = ''SDATE'' then opt_date (date_field p body f) else opt_str (str_field body f))"
    unfolding validate_body_tabulate [OF assms(1)] using assms(2) by (rule map_of_tabulate)
  moreover have "(if f = ''SDATE'' then opt_date (date_field p body f) else opt_str (str_field body f)) =
      stored_value p f v"
    using ok assms(3) date_field_kept str_field_kept by (cases "f = ''SDATE''") simp_all
  ultimately show ?thesis by simp
qed

lemma omitted_fields_None:
  assumes "validate_body p body = Inr record" "f \<in> set columns" "map_of body f = None"
  shows "map_of (schema_dict record) f = Some PyNone"
proof -
  have "map_of (schema_dict record) f =
          Some (if f = ''SDATE'' then opt_date (date_field p body f) else opt_str (str_field body f))"
    unfolding validate_body_tabulate [OF assms(1)] using assms(2) by (rule map_of_tabulate)
  moreover have "(if f = ''SDATE'' then opt_date (date_field p body f) else opt_str (str_field body f)) = PyNone"
    using assms(3) by (cases "f = ''SDATE''") (simp_all add: date_field_def str_field_def opt_date_def opt_str_def)
  ultimately show ?thesis by simp
qed

lemma not_null_columns_subset: "f \<in> set not_null_columns \<Longrightarrow> f \<in> set columns"
  by (auto simp add: not_null_columns_def columns_def)

lemma insert_row_init_Inl:
  assumes "insert_row (MusicDiscography_init (schema_dict record)) t = Inl e"
  shows "(\<exists>m. e = FlushError m) \<or> (\<exists>m. e = IntegrityError m)"
  using assms unfolding insert_row_init
  by (auto split: option.splits list.splits if_splits)

lemma respond_store_error:
  "(\<exists>m. e = FlushError m) \<or> (\<exists>m. e = IntegrityError m) \<Longrightarrow>
   respond response_model (Raised e) = (500, PlainText ''Internal Server Error'')"
  by (auto simp add: respond_def)

text \<open>
  C6. A payload that passes validation, supplies a TYPE that is not yet a key of the
  table and leaves no column that is not nullable without a value is created: the request
  returns the new row. A list request from the start with a limit above the number of
  rows there were then returns a list that holds the mapping of the payload,
  \<open>record.dict()\<close>, in which every column the body supplied has the value the schema
  made of what the body gave: the value itself, and for a string sent as SDATE the date
  read from it.
\<close>

theorem create_then_list_includes_record:
  assumes "validate_body parse_date body = Inr record" "TYPE' record = Some k"
    "null_columns (schema_dict record) = []"
    "Some (PyStr k) \<notin> set (map row_key (table w))" "int (length (table w)) < limit"
  shows "fst (POST_music_discography parse_date body w) =
           Returned (MusicDiscography_init (schema_dict record)) \<and>
         (\<exists>ds. fst (GET_music_discography 0 limit (snd (POST_music_discography parse_date body w))) =
                 Returned ds \<and>
               schema_dict record \<in> set ds) \<and>
         (\<forall>f \<in> set columns. \<forall>v. map_of body f = Some v \<longrightarrow>
            map_of (schema_dict record) f = Some (stored_value parse_date f v))"
proof -
  let ?obj = "MusicDiscography_init (schema_dict record)"
  let ?w' = "snd (POST_music_discography parse_date body w)"
  have post: "POST_music_discography parse_date body w =
           (Returned ?obj,
            w\<lparr>table := table w @ [Some ?obj],
              pending := [], opened := removeAll (next_id w) (opened w), next_id := Suc (next_id w)\<rparr>)"
    using assms(1-4) by (rule POST_music_discography_ok)
  then have t: "table ?w' = table w @ [Some ?obj]" by simp
  have "db_query 0 limit ?w' = Inr (table w @ [Some ?obj])"
    using assms(5) t by (simp add: db_query_def)
  then have get: "fst (GET_music_discography 0 limit ?w') = Returned (spec_valid_records (table w @ [Some ?obj]))"
    by (rule GET_music_discography_value)
  have "converts (Some ?obj)" "mapping_of (Some ?obj) = schema_dict record"
    by (simp_all add: converts_def mapping_of_def init_converted)
  then have "schema_dict record \<in> set (spec_valid_records (table w @ [Some ?obj]))"
    by (simp add: spec_valid_records_def)
  with get post submitted_fields_kept [OF assms(1)] show ?thesis by auto
qed

theorem create_then_list_includes_record_witness:
  "validate_body no_date
     [(''TYPE'', PyStr ''LP3''), (''ORDER'', PyStr ''A''), (''MTITLE'', PyStr ''Y''),
      (''LABEL'', PyStr ''L''), (''GROUP'', PyStr ''G''), (''CENTER'', PyStr ''C'')] =
     Inr \<lparr>TYPE' = Some ''LP3'', SDATE = None, SALENUMBER = None, ORDER = Some ''A'',
           MTITLE = Some ''Y'', MAINCOLOR = None, LABEL = Some ''L'', GROUP = Some ''G'',
           CENTER = Some ''C''\<rparr> \<and>
   null_columns (schema_dict \<lparr>TYPE' = Some ''LP3'', SDATE = None, SALENUMBER = None, ORDER = Some ''A'',
           MTITLE = Some ''Y'', MAINCOLOR = None, LABEL = Some ''L'', GROUP = Some ''G'',
           CENTER = Some ''C''\<rparr>) = [] \<and>
   Some (PyStr ''LP3'') \<notin> set (map row_key (table (world_of [Some lp1, Some lp2]))) \<and>
   (\<exists>ds. fst (GET_music_discography 0 100
              (snd (POST_music_discography no_date
                     [(''TYPE'', PyStr ''LP3''), (''ORDER'', PyStr ''A''), (''MTITLE'', PyStr ''Y''),
                      (''LABEL'', PyStr ''L''), (''GROUP'', PyStr ''G''), (''CENTER'', PyStr ''C'')]
                     (world_of [Some lp1, Some lp2])))) = Returned ds \<and>
      [(''TYPE'', PyStr ''LP3''), (''SDATE'', PyNone), (''SALENUMBER'', PyNone),
       (''ORDER'', PyStr ''A''), (''MTITLE'', PyStr ''Y''), (''MAINCOLOR'', PyNone),
       (''LABEL'', PyStr ''L''), (''GROUP'', PyStr ''G''), (''CENTER'', PyStr ''C'')] \<in> set ds)"
proof -
  let ?body = "[(''TYPE'', PyStr ''LP3''), (''ORDER'', PyStr ''A''), (''MTITLE'', PyStr ''Y''),
                (''LABEL'', PyStr ''L''), (''GROUP'', PyStr ''G''), (''CENTER'', PyStr ''C'')]"
  let ?payload = "\<lparr>TYPE' = Some ''LP3'', SDATE = None, SALENUMBER = None, ORDER = Some ''A'',
           MTITLE = Some ''Y'', MAINCOLOR = None, LABEL = Some ''L'', GROUP = Some ''G'',
           CENTER = Some ''C''\<rparr>"
  have v: "validate_body no_date ?body = Inr ?payload"
    by code_simp
  have t: "TYPE' ?payload = Some ''LP3''"
    by simp
  have n: "null_columns (schema_dict ?payload) = []"
    by code_simp
  have f: "Some (PyStr ''LP3'') \<notin> set (map row_key (table (world_of [Some lp1, Some lp2])))"
    by code_simp
  have l: "int (length (table (world_of [Some lp1, Some lp2]))) < 100"
    by (simp add: world_of_def)
  have d: "schema_dict ?payload =
      [(''TYPE'', PyStr ''LP3''), (''SDATE'', PyNone), (''SALENUMBER'', PyNone),
       (''ORDER'', PyStr ''A''), (''MTITLE'', PyStr ''Y''), (''MAINCOLOR'', PyNone),
       (''LABEL'', PyStr ''L''), (''GROUP'', PyStr ''G''), (''CENTER'', PyStr ''C'')]"
    by (simp add: schema_dict_def opt_str_def opt_date_def)
  note c = create_then_list_includes_record [OF v t n f l]
  from c [THEN conjunct2, THEN conjunct1] have
    "\<exists>ds. fst (GET_music_discography 0 100
              (snd (POST_music_discography no_date ?body (world_of [Some lp1, Some lp2])))) = Returned ds \<and>
      [(''TYPE'', PyStr ''LP3''), (''SDATE'', PyNone), (''SALENUMBER'', PyNone),
       (''ORDER'', PyStr ''A''), (''MTITLE'', PyStr ''Y''), (''MAINCOLOR'', PyNone),
       (''LABEL'', PyStr ''L''), (''GROUP'', PyStr ''G''), (''CENTER'', PyStr ''C'')] \<in> set ds"
    unfolding d .
  with v n f show ?thesis
    by (intro conjI)
qed

text \<open>
  C1. A create request whose TYPE is already in the table fails, but not the way the two
  GET handlers fail: the handler has no try/except, the session's IntegrityError leaves
  it as it is, and the framework answers with its plain 500, which has no detail field
  and does not carry the store's message. The error is that of the duplicate key, unless
  the payload leaves a column that is not nullable without a value, which the store
  refuses first.
\<close>

theorem duplicate_create_raises_unhandled:
  assumes "validate_body parse_date body = Inr record" "TYPE' record = Some k"
    "Some (PyStr k) \<in> set (map row_key (table w))"
  shows "fst (POST_music_discography parse_date body w) =
           Raised (IntegrityError
             (case null_columns (schema_dict record) of
                [] \<Rightarrow> ''Duplicate entry for key PRIMARY''
              | c # cs \<Rightarrow> ''Column '' @ c @ '' cannot be null'')) \<and>
         respond (response_model_record parse_date) (fst (POST_music_discography parse_date body w)) =
           (500, PlainText ''Internal Server Error'')"
proof -
  let ?obj = "MusicDiscography_init (schema_dict record)"
  let ?e = "IntegrityError
             (case null_columns (schema_dict record) of
                [] \<Rightarrow> ''Duplicate entry for key PRIMARY''
              | c # cs \<Rightarrow> ''Column '' @ c @ '' cannot be null'')"
  have "insert_row ?obj (table w) = Inl ?e"
    using assms(2,3) by (simp add: insert_row_init split: list.splits)
  then have "POST_music_discography parse_date body w =
      (Raised ?e, w\<lparr>pending := [], opened := removeAll (next_id w) (opened w), next_id := Suc (next_id w)\<rparr>)"
    using assms(1) by (rule POST_music_discography_raises [rotated])
  then have "fst (POST_music_discography parse_date body w) = Raised ?e"
    by simp
  then show ?thesis by (simp add: respond_def)
qed

theorem duplicate_create_raises_unhandled_witness:
  "validate_body no_date
     [(''TYPE'', PyStr ''LP1''), (''ORDER'', PyStr ''A''), (''MTITLE'', PyStr ''Y''),
      (''LABEL'', PyStr ''L''), (''GROUP'', PyStr ''G''), (''CENTER'', PyStr ''C'')] =
     Inr \<lparr>TYPE' = Some ''LP1'', SDATE = None, SALENUMBER = None, ORDER = Some ''A'',
           MTITLE = Some ''Y'', MAINCOLOR = None, LABEL = Some ''L'', GROUP = Some ''G'',
           CENTER = Some ''C''\<rparr> \<and>
   Some (PyStr ''LP1'') \<in> set (map row_key (table (world_of [Some lp1]))) \<and>
   fst (POST_music_discography no_date
          [(''TYPE'', PyStr ''LP1''), (''ORDER'', PyStr ''A''), (''MTITLE'', PyStr ''Y''),
           (''LABEL'', PyStr ''L''), (''GROUP'', PyStr ''G''), (''CENTER'', PyStr ''C'')]
          (world_of [Some lp1])) =
     Raised (IntegrityError ''Duplicate entry for key PRIMARY'') \<and>
   respond (response_model_record no_date)
     (fst (POST_music_discography no_date
             [(''TYPE'', PyStr ''LP1''), (''ORDER'', PyStr ''A''), (''MTITLE'', PyStr ''Y''),
              (''LABEL'', PyStr ''L''), (''GROUP'', PyStr ''G''), (''CENTER'', PyStr ''C'')]
             (world_of [Some lp1]))) =
     (500, PlainText ''Internal Server Error'') \<and>
   respond (response_model_list no_date) (fst (GET_music_discography (- 1) 10 (world_of [Some lp1]))) =
     (500, Detail ''You have an error in your SQL syntax'')"
proof -
  let ?body = "[(''TYPE'', PyStr ''LP1''), (''ORDER'', PyStr ''A''), (''MTITLE'', PyStr ''Y''),
                (''LABEL'', PyStr ''L''), (''GROUP'', PyStr ''G''), (''CENTER'', PyStr ''C'')]"
  let ?payload = "\<lparr>TYPE' = Some ''LP1'', SDATE = None, SALENUMBER = None, ORDER = Some ''A'',
           MTITLE = Some ''Y'', MAINCOLOR = None, LABEL = Some ''L'', GROUP = Some ''G'',
           CENTER = Some ''C''\<rparr>"
  have v: "validate_body no_date ?body = Inr ?payload"
    by code_simp
  have t: "TYPE' ?payload = Some ''LP1''"
    by simp
  have d: "Some (PyStr ''LP1'') \<in> set (map row_key (table (world_of [Some lp1])))"
    by code_simp
  have n: "null_columns (schema_dict ?payload) = []"
    by code_simp
  have g: "respond (response_model_list no_date) (fst (GET_music_discography (- 1) 10 (world_of [Some lp1]))) =
     (500, Detail ''You have an error in your SQL syntax'')"
    by code_simp
  note c = duplicate_create_raises_unhandled [OF v t d]
  have c1: "fst (POST_music_discography no_date ?body (world_of [Some lp1])) =
     Raised (IntegrityError ''Duplicate entry for key PRIMARY'')"
    using c [THEN conjunct1] unfolding n by simp
  have c2: "respond (response_model_record no_date)
     (fst (POST_music_discography no_date ?body (world_of [Some lp1]))) =
     (500, PlainText ''Internal Server Error'')"
    using c by (rule conjunct2)
  from v d c1 c2 g show ?thesis
    by (intro conjI)
qed

text \<open>
  C2. A create request whose body omits TYPE, ORDER, MTITLE, LABEL, GROUP or CENTER is
  rejected: the handler does not return, the answer is not 200 and the table stays as it
  was. The schema puts None, its declared default, for the omitted field and nothing
  else, and the store refuses the row: the caller has to supply these fields.
\<close>

theorem create_rejects_omitted_field:
  assumes "f \<in> set not_null_columns" "map_of body f = None"
  shows "\<not> returned (fst (POST_music_discography parse_date body w)) \<and>
         fst (respond (response_model_record parse_date)
               (fst (POST_music_discography parse_date body w))) \<noteq> 200 \<and>
         table (snd (POST_music_discography parse_date body w)) = table w \<and>
         (\<forall>record. validate_body parse_date body = Inr record \<longrightarrow>
            map_of (schema_dict record) f = Some PyNone)"
proof -
  have col: "f \<in> set columns"
    using assms(1) by (rule not_null_columns_subset)
  have sub: "\<forall>record. validate_body parse_date body = Inr record \<longrightarrow>
            map_of (schema_dict record) f = Some PyNone"
    using omitted_fields_None col assms(2) by blast
  show ?thesis
  proof (cases rule: POST_music_discography_cases [of parse_date body w])
    case (invalid names)
    then show ?thesis using sub by (simp add: returned_def respond_def)
  next
    case (refused r e)
    have "respond (response_model_record parse_date) (Raised e) = (500, PlainText ''Internal Server Error'')"
      using insert_row_init_Inl [OF refused(2)] by (rule respond_store_error)
    then show ?thesis using refused(3) sub by (simp add: returned_def)
  next
    case (created r k)
    have "map_of (schema_dict r) f = Some PyNone"
      using sub created(1) by blast
    then have "f \<in> set (null_columns (schema_dict r))"
      using assms(1) by (simp add: null_columns_def)
    with created(3) show ?thesis by simp
  qed
qed

theorem create_rejects_omitted_field_witness:
  "''ORDER'' \<in> set not_null_columns \<and>
   map_of [(''TYPE'', PyStr ''LP3''), (''MTITLE'', PyStr ''Y''), (''LABEL'', PyStr ''L''),
           (''GROUP'', PyStr ''G''), (''CENTER'', PyStr ''C'')] ''ORDER'' = None \<and>
   fst (POST_music_discography no_date
          [(''TYPE'', PyStr ''LP3''), (''MTITLE'', PyStr ''Y''), (''LABEL'', PyStr ''L''),
           (''GROUP'', PyStr ''G''), (''CENTER'', PyStr ''C'')]
          (world_of [Some lp1])) =
     Raised (IntegrityError ''Column ORDER cannot be null'') \<and>
   \<not> returned (fst (POST_music_discography no_date
          [(''TYPE'', PyStr ''LP3''), (''MTITLE'', PyStr ''Y''), (''LABEL'', PyStr ''L''),
           (''GROUP'', PyStr ''G''), (''CENTER'', PyStr ''C'')]
          (world_of [Some lp1]))) \<and>
   table (snd (POST_music_discography no_date
          [(''TYPE'', PyStr ''LP3''), (''MTITLE'', PyStr ''Y''), (''LABEL'', PyStr ''L''),
           (''GROUP'', PyStr ''G''), (''CENTER'', PyStr ''C'')]
          (world_of [Some lp1]))) = table (world_of [Some lp1])"
proof -
  let ?body = "[(''TYPE'', PyStr ''LP3''), (''MTITLE'', PyStr ''Y''), (''LABEL'', PyStr ''L''),
                (''GROUP'', PyStr ''G''), (''CENTER'', PyStr ''C'')]"
  have a: "''ORDER'' \<in> set not_null_columns"
    by (simp add: not_null_columns_def)
  have b: "map_of ?body ''ORDER'' = None"
    by simp
  have r: "fst (POST_music_discography no_date ?body (world_of [Some lp1])) =
     Raised (IntegrityError ''Column ORDER cannot be null'')"
    by code_simp
  note c = create_rejects_omitted_field [OF a b, of no_date "world_of [Some lp1]"]
  have c1: "\<not> returned (fst (POST_music_discography no_date ?body (world_of [Some lp1])))"
    using c by (rule conjunct1)
  have c3: "table (snd (POST_music_discography no_date ?body (world_of [Some lp1]))) =
      table (world_of [Some lp1])"
    using c [THEN conjunct2, THEN conjunct2] by (rule conjunct1)
  from a b r c1 c3 show ?thesis
    by (intro conjI)
qed

end
